theory Spec2Isabelle
  imports Main "HOL-Library.Word" "HOL-Library.Signed_Division"
begin

section \<open>Package state: CalculateDelay\<close>

subsection \<open>Go values used by CalculateDelay\<close>

text \<open>
  \<^verbatim>\<open>int64\<close> and \<^verbatim>\<open>time.Duration\<close> (an int64 count of nanoseconds) are 64-bit words:
  \<open>+\<close>, \<open>-\<close> and \<open>*\<close> wrap around as Go's do, \<open>sint\<close> reads the signed value, and
  the comparisons of the source are the signed ones (\<open><s\<close>, \<open>\<le>s\<close>).
  A \<^verbatim>\<open>time.Time\<close> is its wall-clock instant: the number of nanoseconds since Go's zero
  time (January 1, year 1, 00:00:00 UTC), an unbounded integer.
  A Go \<^verbatim>\<open>error\<close> is \<open>None\<close> for \<^verbatim>\<open>nil\<close> and \<open>Some\<close> of its text otherwise.
\<close>

type_synonym int64 = "64 word"
type_synonym Duration = "64 word"
type_synonym Time = int
type_synonym error = string

text \<open>Go's \<^verbatim>\<open>/\<close> on signed integers truncates towards zero.\<close>

definition quo :: "int64 \<Rightarrow> int64 \<Rightarrow> int64" where
  "quo a b = word_of_int (sint a sdiv sint b)"

definition minDuration :: Duration where
  "minDuration = word_of_int (- (2 ^ 63))"

definition maxDuration :: Duration where
  "maxDuration = word_of_int (2 ^ 63 - 1)"

text \<open>
  \<^verbatim>\<open>func (d Duration) Abs() Duration\<close> of package time:
  \<^verbatim>\<open>switch { case d >= 0: return d; case d == minDuration: return maxDuration; default: return -d }\<close>
\<close>

definition Duration_Abs :: "Duration \<Rightarrow> Duration" where
  "Duration_Abs d =
     (if 0 \<le>s d then d else if d = minDuration then maxDuration else - d)"

text \<open>
  \<^verbatim>\<open>func (t Time) Sub(u Time) Duration\<close> of package time: the difference \<open>t - u\<close>, and
  the minimum or maximum duration when the difference does not fit an int64.
\<close>

definition Time_Sub :: "Time \<Rightarrow> Time \<Rightarrow> Duration" where
  "Time_Sub t u =
     (let d = t - u in
      if d < - (2 ^ 63) then minDuration
      else if 2 ^ 63 - 1 < d then maxDuration
      else word_of_int d)"

definition IsZero :: "Time \<Rightarrow> bool" where
  "IsZero t = (t = 0)"

text \<open>
  The fields CalculateDelay reads: \<^verbatim>\<open>currentBlock.Height\<close> and \<^verbatim>\<open>currentBlock.Time\<close>
  (fields of the embedded header), \<^verbatim>\<open>consensusParams.Block.BlockTime\<close> and
  \<^verbatim>\<open>state.GenesisTime\<close>. The block pointer is dereferenced without a check and is
  taken to be non-nil.
\<close>

record Header =
  Height :: int64
  Time :: Time

record Block =
  Header :: Header

record BlockParams =
  BlockTime :: Duration

record ConsensusParams =
  Block :: BlockParams

record State =
  GenesisTime :: Time

text \<open>
  The \<^verbatim>\<open>Store\<close> interface, as far as CalculateDelay calls it. Each method returns Go's
  pair of a value and an error.
\<close>

record Store =
  Load :: "State \<times> error option"
  LoadConsensusParams :: "int64 \<Rightarrow> ConsensusParams \<times> error option"

subsection \<open>CalculateDelay with the literal constants 10 and 5\<close>

definition CalculateDelay_literal :: "Store \<Rightarrow> Block \<Rightarrow> Duration" where
  "CalculateDelay_literal store currentBlock =
     (case Load store of (state, err) \<Rightarrow>
      if err \<noteq> None then 0
      else
       (case LoadConsensusParams store (Height (Header currentBlock) - 1) of
          (consensusParams, err) \<Rightarrow>
        if err \<noteq> None then 0
        else
         (let blockTime = BlockTime (Block consensusParams);
              idealNextBlockDelay = blockTime - quo blockTime 10;
              genesisTime = GenesisTime state
          in if IsZero genesisTime then 0
             else
              (let gotDuration = Time_Sub (Time (Header currentBlock)) genesisTime;
                   expected = blockTime * (Height (Header currentBlock) - 1);
                   expectedDuration = expected;
                   diff = gotDuration - expectedDuration;
                   threshold = quo idealNextBlockDelay 5
               in if quo idealNextBlockDelay 5 <s Duration_Abs diff then
                    (if 0 <s diff then idealNextBlockDelay - threshold
                     else idealNextBlockDelay + threshold)
                  else idealNextBlockDelay - diff))))"

subsection \<open>CalculateDelay with the named constants\<close>

definition MsgProcDelayRatio :: int64 where
  "MsgProcDelayRatio = 10"

definition DeflectionRatio :: int64 where
  "DeflectionRatio = 5"

definition CalculateDelay :: "Store \<Rightarrow> Block \<Rightarrow> Duration" where
  "CalculateDelay store currentBlock =
     (case Load store of (state, err) \<Rightarrow>
      if err \<noteq> None then 0
      else
       (case LoadConsensusParams store (Height (Header currentBlock) - 1) of
          (consensusParams, err) \<Rightarrow>
        if err \<noteq> None then 0
        else
         (let blockTime = BlockTime (Block consensusParams);
              msgProcDelay = quo blockTime MsgProcDelayRatio;
              idealNextBlockDelay = blockTime - msgProcDelay;
              genesisTime = GenesisTime state
          in if IsZero genesisTime then 0
             else
              (let gotDuration = Time_Sub (Time (Header currentBlock)) genesisTime;
                   expected = blockTime * (Height (Header currentBlock) - 1);
                   expectedDuration = expected;
                   diff = gotDuration - expectedDuration;
                   threshold = quo idealNextBlockDelay DeflectionRatio
               in if threshold <s Duration_Abs diff then
                    (if 0 <s diff then idealNextBlockDelay - threshold
                     else idealNextBlockDelay + threshold)
                  else idealNextBlockDelay - diff))))"

text \<open>
  The ideal delay and the threshold as the claims name them:
  \<open>ideal = blockTime - blockTime / MsgProcDelayRatio\<close> and
  \<open>threshold = ideal / DeflectionRatio\<close>, both in Duration arithmetic.
\<close>

definition idealDelay :: "Duration \<Rightarrow> Duration" where
  "idealDelay blockTime = blockTime - quo blockTime MsgProcDelayRatio"

definition deflectionThreshold :: "Duration \<Rightarrow> Duration" where
  "deflectionThreshold blockTime = quo (idealDelay blockTime) DeflectionRatio"

text \<open>Stores and blocks on which the delay is evaluated below.\<close>

definition second_store :: Store where
  "second_store =
     \<lparr>Load = (\<lparr>GenesisTime = 1700000000000000000\<rparr>, None),
      LoadConsensusParams = (\<lambda>h. (\<lparr>Block = \<lparr>BlockTime = 1000000000\<rparr>\<rparr>, None))\<rparr>"

definition late_block :: Block where
  "late_block = \<lparr>Header = \<lparr>Height = 10, Time = 1700000009090000000\<rparr>\<rparr>"

definition negative_store :: Store where
  "negative_store =
     \<lparr>Load = (\<lparr>GenesisTime = 1\<rparr>, None),
      LoadConsensusParams = (\<lambda>h. (\<lparr>Block = \<lparr>BlockTime = - 10\<rparr>\<rparr>, None))\<rparr>"

definition first_block :: Block where
  "first_block = \<lparr>Header = \<lparr>Height = 1, Time = 1\<rparr>\<rparr>"

section \<open>Package p2p: the peer\<close>

subsection \<open>Data\<close>

text \<open>
  A stream (channel) ID is a byte. A \<^verbatim>\<open>*peer\<close> pointer, as stored in an envelope's
  \<^verbatim>\<open>Src\<close>, is an address. A panic carries its message.
\<close>

type_synonym byte = "8 word"
type_synonym peer_ref = nat
type_synonym panic = string

text \<open>\<^verbatim>\<open>na.NetAddr\<close>; a \<^verbatim>\<open>*na.NetAddr\<close> is an \<open>option\<close>, \<open>None\<close> for the nil pointer.\<close>

record NetAddr =
  ID :: string
  IP :: string
  Port :: nat

text \<open>
  \<^verbatim>\<open>tcpconn.ConnectionStatus\<close>, as far as the metrics reporter reads it: the send queue
  size of every channel and the sleep times of the two rate limiters.
\<close>

record ChannelStatus =
  SendQueueSize :: int

record FlowStatus =
  SleepTime :: Duration

record ConnectionStatus =
  Channels :: "ChannelStatus list"
  SendMonitor :: FlowStatus
  RecvMonitor :: FlowStatus

text \<open>
  \<^verbatim>\<open>ni.NodeInfo\<close> is an interface; \<^verbatim>\<open>ni.Default\<close> is the implementation whose
  \<^verbatim>\<open>Channels\<close> the peer caches. Any other implementation is \<open>OtherNodeInfo\<close>.
\<close>

record DefaultNodeInfo =
  DefaultNodeID :: string
  ListenAddr :: string
  Channels :: "byte list"

datatype NodeInfo = Default DefaultNodeInfo | OtherNodeInfo string

fun NodeInfo_ID :: "NodeInfo \<Rightarrow> string" where
  "NodeInfo_ID (Default d) = DefaultNodeID d"
| "NodeInfo_ID (OtherNodeInfo i) = i"

datatype Metrics = NopMetrics | MetricsSink string

text \<open>
  Modelled from the spec: the lifecycle state of \<^verbatim>\<open>service.BaseService\<close> (package
  libs/service, not among the sources). The spec's data model: one of Created, Starting,
  Running, Stopping, Stopped; Created at construction.
\<close>

datatype lifecycle = Created | Starting | Running | Stopping | Stopped

text \<open>
  Modelled from the spec: the pending-metrics cache (\<^verbatim>\<open>peerPendingMetricsCache\<close>, declared
  in the package's metrics file, not among the sources). The spec's data model: a mapping
  from message-type label to the counters pendingSendBytes and pendingRecvBytes. The
  reporter reads \<^verbatim>\<open>entry.label\<close>, \<^verbatim>\<open>entry.pendingSendBytes\<close> and
  \<^verbatim>\<open>entry.pendingRecvBytes\<close>; the counters are Go ints. A message type is identified by its
  label. The association list gives the order in which \<^verbatim>\<open>range\<close> visits the map.
\<close>

record peerPendingMetricsCacheEntry =
  label :: string
  pendingSendBytes :: int
  pendingRecvBytes :: int

record peerPendingMetricsCache =
  perMessageCache :: "(string \<times> peerPendingMetricsCacheEntry) list"

record peerConn =
  outbound :: bool
  persistent :: bool
  socketAddr :: "NetAddr option"

record peer =
  BaseService :: lifecycle
  peerConn :: peerConn
  nodeInfo :: NodeInfo
  channels :: "byte list"
  metrics :: Metrics
  pendingMetrics :: peerPendingMetricsCache
  removalAttemptFailed :: bool

record 'm Envelope =
  ChannelID :: byte
  Src :: peer_ref
  Message :: 'm

text \<open>
  \<^verbatim>\<open>peerConfig\<close>, as far as \<^verbatim>\<open>wrapPeer\<close> reads it. \<^verbatim>\<open>isPersistent\<close> is \<open>None\<close> when the
  function is nil. \<^verbatim>\<open>reactorsByStreamID\<close> lists the map in the order \<^verbatim>\<open>range\<close> visits it.
\<close>

record ('m, 'r) peerConfig =
  outbound :: bool
  isPersistent :: "(NetAddr option \<Rightarrow> bool) option"
  reactorsByStreamID :: "(byte \<times> 'r) list"
  msgTypeByStreamID :: "byte \<rightharpoonup> 'm"
  metrics :: Metrics

text \<open>
  The message library, which the peer calls and does not implement: \<^verbatim>\<open>getMsgType\<close>,
  \<^verbatim>\<open>types.Wrapper\<close> (\<open>Wrap m\<close> is \<open>None\<close> when \<open>m\<close> does not implement it),
  \<^verbatim>\<open>types.Unwrapper\<close> (likewise), \<^verbatim>\<open>proto.Marshal\<close> and \<^verbatim>\<open>proto.Unmarshal\<close> (of the bytes
  into a clone of the prototype). \<open>Inl\<close> is a non-nil error.
\<close>

record 'm Proto =
  getMsgType :: "'m \<Rightarrow> string"
  Wrap :: "'m \<Rightarrow> 'm option"
  Unwrap :: "'m \<Rightarrow> (error + 'm) option"
  Marshal :: "'m \<Rightarrow> error + byte list"
  Unmarshal :: "byte list \<Rightarrow> 'm \<Rightarrow> error + 'm"

subsection \<open>Effects on the collaborators\<close>

text \<open>
  What a peer operation does to the outside is the list of calls it makes, in order:
  goroutines it starts, calls on the connection, on the logger, on a reactor, on the
  cache's mutex and on the metrics. A float64 handed to a metric is kept as the value it
  is converted from.
\<close>

datatype ('m, 'r) task =
    readLoop_task "(byte \<times> 'r) list" "byte \<rightharpoonup> 'm"
  | metricsReporter_task

datatype metricValue = float64_of_int int | Seconds Duration

datatype ('m, 'r) effect =
    Go "('m, 'r) task"
  | SetWriteDeadline Time
  | ConnWrite byte "byte list"
  | ConnRead byte nat
  | ConnStatus
  | ConnClose string
  | ConnFlushAndClose string
  | LogError string
  | LogDebug string
  | ReactorReceive 'r "'m Envelope"
  | MtxLock
  | MtxUnlock
  | CounterAdd string string string metricValue
  | GaugeSet string string string metricValue

datatype outcome = Continue | Return | Panic panic

subsection \<open>The service and the cache\<close>

text \<open>
  Modelled from the spec: \<^verbatim>\<open>service.NewBaseService\<close>, \<^verbatim>\<open>IsRunning\<close> and \<^verbatim>\<open>Quit\<close> of
  \<^verbatim>\<open>service.BaseService\<close> (not among the sources). A service is constructed in state
  Created; the cancellation signal has fired once the state is Stopped.
\<close>

definition NewBaseService :: lifecycle where
  "NewBaseService = Created"

definition IsRunning :: "peer \<Rightarrow> bool" where
  "IsRunning p = (BaseService p = Running)"

definition Quit :: "peer \<Rightarrow> bool" where
  "Quit p = (BaseService p = Stopped)"

text \<open>
  Modelled from the spec: \<^verbatim>\<open>newPeerPendingMetricsCache\<close>, \<^verbatim>\<open>AddPendingSendBytes\<close> and
  \<^verbatim>\<open>AddPendingRecvBytes\<close> (not among the sources): the cache starts empty, and a byte
  count is recorded against the message type, in a new entry if the type has none.
\<close>

definition newPeerPendingMetricsCache :: peerPendingMetricsCache where
  "newPeerPendingMetricsCache = \<lparr>perMessageCache = []\<rparr>"

fun upsert :: "'k \<Rightarrow> 'v \<Rightarrow> ('v \<Rightarrow> 'v) \<Rightarrow> ('k \<times> 'v) list \<Rightarrow> ('k \<times> 'v) list" where
  "upsert k new f [] = [(k, f new)]"
| "upsert k new f ((k', v) # kvs) =
     (if k' = k then (k', f v) # kvs else (k', v) # upsert k new f kvs)"

definition AddPendingSendBytes ::
  "peerPendingMetricsCache \<Rightarrow> string \<Rightarrow> int \<Rightarrow> peerPendingMetricsCache" where
  "AddPendingSendBytes c msgType addBytes =
     c\<lparr>perMessageCache :=
         upsert msgType \<lparr>label = msgType, pendingSendBytes = 0, pendingRecvBytes = 0\<rparr>
           (\<lambda>entry. entry\<lparr>pendingSendBytes := pendingSendBytes entry + addBytes\<rparr>)
           (perMessageCache c)\<rparr>"

definition AddPendingRecvBytes ::
  "peerPendingMetricsCache \<Rightarrow> string \<Rightarrow> int \<Rightarrow> peerPendingMetricsCache" where
  "AddPendingRecvBytes c msgType addBytes =
     c\<lparr>perMessageCache :=
         upsert msgType \<lparr>label = msgType, pendingSendBytes = 0, pendingRecvBytes = 0\<rparr>
           (\<lambda>entry. entry\<lparr>pendingRecvBytes := pendingRecvBytes entry + addBytes\<rparr>)
           (perMessageCache c)\<rparr>"

subsection \<open>Construction\<close>

definition newPeerConn :: "bool \<Rightarrow> bool \<Rightarrow> NetAddr option \<Rightarrow> peerConn" where
  "newPeerConn outbound' persistent' socketAddr' =
     \<lparr>peerConn.outbound = outbound', persistent = persistent', socketAddr = socketAddr'\<rparr>"

text \<open>\<^verbatim>\<open>PeerMetrics\<close> is the one \<^verbatim>\<open>PeerOption\<close> the package defines.\<close>

datatype PeerOption = PeerMetrics Metrics

fun applyOption :: "peer \<Rightarrow> PeerOption \<Rightarrow> peer" where
  "applyOption p (PeerMetrics m) = p\<lparr>peer.metrics := m\<rparr>"

text \<open>
  \<^verbatim>\<open>newPeer\<close>. The type assertion \<^verbatim>\<open>nodeInfo.(ni.Default)\<close> panics on any other node info.
  The \<^verbatim>\<open>go p.readLoop(...)\<close> statement is the effect \<open>Go (readLoop_task ...)\<close>. The
  parameters \<^verbatim>\<open>mConfig\<close> and \<^verbatim>\<open>onPeerError\<close> are not used by the function.
\<close>

definition newPeer ::
  "peerConn \<Rightarrow> NodeInfo \<Rightarrow> (byte \<times> 'r) list \<Rightarrow> (byte \<rightharpoonup> 'm) \<Rightarrow> PeerOption list
    \<Rightarrow> panic + (peer \<times> ('m, 'r) effect list)" where
  "newPeer pc nodeInfo' reactorsByStreamID' msgTypeByStreamID' options =
     (case nodeInfo' of
        Default d \<Rightarrow>
          (let p = \<lparr>BaseService = NewBaseService,
                    peerConn = pc,
                    nodeInfo = nodeInfo',
                    channels = Channels d,
                    peer.metrics = NopMetrics,
                    pendingMetrics = newPeerPendingMetricsCache,
                    removalAttemptFailed = False\<rparr>
           in Inr (foldl applyOption p options,
                   [Go (readLoop_task reactorsByStreamID' msgTypeByStreamID')]))
      | OtherNodeInfo i \<Rightarrow> Inl ''interface conversion: ni.NodeInfo is not ni.Default'')"

text \<open>
  \<^verbatim>\<open>wrapPeer\<close>. \<open>ni_NetAddr\<close> is the node info's method \<^verbatim>\<open>NetAddr()\<close>, returning Go's pair
  of an address and an error.
\<close>

definition wrapPeer ::
  "(NodeInfo \<Rightarrow> NetAddr option \<times> error option) \<Rightarrow> NodeInfo \<Rightarrow> ('m, 'r) peerConfig
    \<Rightarrow> NetAddr option \<Rightarrow> panic + (peer \<times> ('m, 'r) effect list)" where
  "wrapPeer ni_NetAddr ni cfg socketAddr' =
     (let persistent' =
            (case isPersistent cfg of
               None \<Rightarrow> False
             | Some f \<Rightarrow>
                 if peerConfig.outbound cfg then f socketAddr'
                 else (case ni_NetAddr ni of
                         (selfReportedAddr, err) \<Rightarrow>
                           if err = None then f selfReportedAddr else False));
          peerConn' = newPeerConn (peerConfig.outbound cfg) persistent' socketAddr'
      in newPeer peerConn' ni (reactorsByStreamID cfg) (msgTypeByStreamID cfg)
           [PeerMetrics (peerConfig.metrics cfg)])"

subsection \<open>Accessors\<close>

definition peer_ID :: "peer \<Rightarrow> string" where
  "peer_ID p = NodeInfo_ID (nodeInfo p)"

definition IsOutbound :: "peer \<Rightarrow> bool" where
  "IsOutbound p = peerConn.outbound (peerConn p)"

definition IsPersistent :: "peer \<Rightarrow> bool" where
  "IsPersistent p = persistent (peerConn p)"

fun HasChannel_scan :: "byte list \<Rightarrow> byte \<Rightarrow> bool" where
  "HasChannel_scan [] chID = False"
| "HasChannel_scan (ch # chs) chID = (if ch = chID then True else HasChannel_scan chs chID)"

definition HasChannel :: "peer \<Rightarrow> byte \<Rightarrow> bool" where
  "HasChannel p chID = HasChannel_scan (channels p) chID"

subsection \<open>Start and stop\<close>

text \<open>
  \<^verbatim>\<open>OnStart\<close>: \<open>baseOnStart\<close> is what \<^verbatim>\<open>p.BaseService.OnStart()\<close> returns.
  \<^verbatim>\<open>OnStop\<close> closes the connection.
\<close>

definition OnStart :: "error option \<Rightarrow> error option \<times> ('m, 'r) effect list" where
  "OnStart baseOnStart =
     (if baseOnStart \<noteq> None then (baseOnStart, [])
      else (None, [Go metricsReporter_task]))"

definition OnStop :: "('m, 'r) effect list" where
  "OnStop = [ConnClose ''stopping peer'']"

definition FlushStop :: "('m, 'r) effect list" where
  "FlushStop = [ConnFlushAndClose ''stopping peer'']"

text \<open>
  Modelled from the spec: \<^verbatim>\<open>Start\<close> and \<^verbatim>\<open>Stop\<close> of \<^verbatim>\<open>service.BaseService\<close> (not among
  the sources). Start takes a Created service to Running, through the peer's \<^verbatim>\<open>OnStart\<close>;
  Stop takes a Running service to Stopped, through the peer's \<^verbatim>\<open>OnStop\<close>. The spec names
  no other transition of either, and the model makes none.
\<close>

definition Start :: "error option \<Rightarrow> peer \<Rightarrow> error option \<times> peer \<times> ('m, 'r) effect list" where
  "Start baseOnStart p =
     (if BaseService p = Created then
        (case OnStart baseOnStart of
           (None, effs) \<Rightarrow> (None, p\<lparr>BaseService := Running\<rparr>, effs)
         | (Some err, effs) \<Rightarrow> (Some err, p, effs))
      else (Some ''service is not in state Created'', p, []))"

definition Stop :: "peer \<Rightarrow> error option \<times> peer \<times> ('m, 'r) effect list" where
  "Stop p =
     (if BaseService p = Running then (None, p\<lparr>BaseService := Stopped\<rparr>, OnStop)
      else (Some ''service is not in state Running'', p, []))"

subsection \<open>Sending\<close>

definition Second :: int where
  "Second = 1000000000"

definition Millisecond :: int where
  "Millisecond = 1000000"

text \<open>
  \<^verbatim>\<open>send\<close>. \<open>sendFunc\<close> returns Go's pair of the number of bytes written and an error.
  The call of \<open>sendFunc\<close> is the effect \<open>ConnWrite\<close> (both callers pass \<^verbatim>\<open>p.conn.Write\<close>).
\<close>

definition send ::
  "'m Proto \<Rightarrow> peer \<Rightarrow> byte \<Rightarrow> 'm \<Rightarrow> (byte \<Rightarrow> byte list \<Rightarrow> int \<times> error option)
    \<Rightarrow> bool \<times> peer \<times> ('m, 'r) effect list" where
  "send px p streamID msg sendFunc =
     (if \<not> IsRunning p then (False, p, [])
      else if \<not> HasChannel p streamID then (False, p, [])
      else
        (let msgType = getMsgType px msg;
             msg' = (case Wrap px msg of Some w \<Rightarrow> w | None \<Rightarrow> msg)
         in case Marshal px msg' of
              Inl err \<Rightarrow> (False, p, [LogError ''Can't marshal msg''])
            | Inr msgBytes \<Rightarrow>
                (case sendFunc streamID msgBytes of
                   (n, err) \<Rightarrow>
                     if err \<noteq> None then
                       (False, p,
                        [ConnWrite streamID msgBytes, LogError ''Failed to send msg to stream''])
                     else if n \<noteq> int (length msgBytes) then
                       (False, p,
                        [ConnWrite streamID msgBytes, LogError ''Message not sent completely''])
                     else
                       (True,
                        p\<lparr>pendingMetrics := AddPendingSendBytes (pendingMetrics p) msgType n\<rparr>,
                        [ConnWrite streamID msgBytes]))))"

text \<open>
  \<^verbatim>\<open>Send\<close> and \<^verbatim>\<open>TrySend\<close>: \<open>now\<close> is what \<^verbatim>\<open>time.Now()\<close> returns and \<open>connWrite\<close> is
  \<^verbatim>\<open>p.conn.Write\<close>.
\<close>

definition Send ::
  "'m Proto \<Rightarrow> Time \<Rightarrow> (byte \<Rightarrow> byte list \<Rightarrow> int \<times> error option) \<Rightarrow> peer \<Rightarrow> 'm Envelope
    \<Rightarrow> bool \<times> peer \<times> ('m, 'r) effect list" where
  "Send px now connWrite p e =
     (case send px p (ChannelID e) (Message e) connWrite of
        (ok, p', effs) \<Rightarrow> (ok, p', SetWriteDeadline (now + 10 * Second) # effs))"

definition TrySend ::
  "'m Proto \<Rightarrow> Time \<Rightarrow> (byte \<Rightarrow> byte list \<Rightarrow> int \<times> error option) \<Rightarrow> peer \<Rightarrow> 'm Envelope
    \<Rightarrow> bool \<times> peer \<times> ('m, 'r) effect list" where
  "TrySend px now connWrite p e =
     (case send px p (ChannelID e) (Message e) connWrite of
        (ok, p', effs) \<Rightarrow> (ok, p', SetWriteDeadline (now + 100 * Millisecond) # effs))"

subsection \<open>The read loop\<close>

text \<open>
  A read hands the connection a buffer; the connection copies bytes into it and returns
  Go's pair of a count and an error. \<open>readInto buf data\<close> is the buffer after the
  connection has copied \<open>data\<close> into it.
\<close>

definition readInto :: "byte list \<Rightarrow> byte list \<Rightarrow> byte list" where
  "readInto buf data = take (length buf) data @ drop (length data) buf"

text \<open>
  The body of the \<^verbatim>\<open>for streamID, reactor := range reactorsByStreamID\<close> loop, after the
  call of \<^verbatim>\<open>p.peerConn.Read(streamID, buf)\<close> has returned \<open>(n, err)\<close> and copied \<open>data\<close>
  into the buffer. \<open>self\<close> is the pointer \<^verbatim>\<open>p\<close>. \<open>Continue\<close> goes on with the next stream,
  \<open>Return\<close> leaves \<^verbatim>\<open>readLoop\<close>, \<open>Panic\<close> is a Go panic: \<^verbatim>\<open>proto.Clone\<close> panics on the nil
  prototype of a stream that \<^verbatim>\<open>msgTypeByStreamID\<close> does not hold, and \<^verbatim>\<open>buf[:n]\<close> panics
  when \<open>n\<close> is not within the buffer.
\<close>

definition readLoop_body ::
  "'m Proto \<Rightarrow> peer_ref \<Rightarrow> (byte \<rightharpoonup> 'm) \<Rightarrow> peer \<Rightarrow> byte \<Rightarrow> 'r
    \<Rightarrow> byte list \<times> int \<times> error option \<Rightarrow> outcome \<times> peer \<times> ('m, 'r) effect list" where
  "readLoop_body px self msgTypeByStreamID' p streamID reactor rd =
     (case rd of
        (data, n, err) \<Rightarrow>
          (let buf = readInto (replicate 1024 0) data
           in if err \<noteq> None then
                (case Stop p of
                   (stopErr, p', effs) \<Rightarrow>
                     (Return, p', LogDebug ''Error reading from stream'' # effs))
              else if n = 0 then (Continue, p, [])
              else
                (case msgTypeByStreamID' streamID of
                   None \<Rightarrow> (Panic ''proto.Clone: nil prototype'', p, [])
                 | Some mt \<Rightarrow>
                     if n < 0 \<or> int (length buf) < n then
                       (Panic ''slice bounds out of range'', p, [])
                     else
                       (case Unmarshal px (take (nat n) buf) mt of
                          Inl err \<Rightarrow> (Panic ''unmarshaling message'', p, [])
                        | Inr msg \<Rightarrow>
                            (case (case Unwrap px msg of
                                     Some r \<Rightarrow> r
                                   | None \<Rightarrow> Inr msg) of
                               Inl err \<Rightarrow> (Panic ''unwrapping message'', p, [])
                             | Inr msg' \<Rightarrow>
                                 (Continue,
                                  p\<lparr>pendingMetrics :=
                                      AddPendingRecvBytes (pendingMetrics p)
                                        (getMsgType px msg') n\<rparr>,
                                  [ReactorReceive reactor
                                     \<lparr>ChannelID = streamID, Src = self,
                                      Message = msg'\<rparr>]))))))"

text \<open>
  The \<^verbatim>\<open>range\<close> loop over the streams. \<open>connRead c streamID len\<close> is the connection's
  \<^verbatim>\<open>Read\<close> in connection state \<open>c\<close> with a buffer of \<open>len\<close> bytes: the next state, the
  bytes copied, the count and the error.
\<close>

fun readLoop_range ::
  "'m Proto \<Rightarrow> ('c \<Rightarrow> byte \<Rightarrow> nat \<Rightarrow> 'c \<times> byte list \<times> int \<times> error option) \<Rightarrow> peer_ref
    \<Rightarrow> (byte \<rightharpoonup> 'm) \<Rightarrow> (byte \<times> 'r) list \<Rightarrow> 'c \<Rightarrow> peer
    \<Rightarrow> outcome \<times> 'c \<times> peer \<times> ('m, 'r) effect list" where
  "readLoop_range px connRead self mts [] c p = (Continue, c, p, [])"
| "readLoop_range px connRead self mts ((streamID, reactor) # rest) c p =
     (case connRead c streamID 1024 of
        (c', rd) \<Rightarrow>
          (case readLoop_body px self mts p streamID reactor rd of
             (Continue, p', effs) \<Rightarrow>
               (case readLoop_range px connRead self mts rest c' p' of
                  (oc, c'', p'', effs') \<Rightarrow>
                    (oc, c'', p'', ConnRead streamID 1024 # effs @ effs'))
           | (oc, p', effs) \<Rightarrow> (oc, c', p', ConnRead streamID 1024 # effs)))"

text \<open>
  \<^verbatim>\<open>readLoop\<close>: the endless \<^verbatim>\<open>for\<close> with its \<^verbatim>\<open>select\<close>. The loop may run forever, so it
  is given fuel, one unit for every round of the outer loop; \<open>None\<close> means that the fuel
  ran out before the loop returned or panicked.
\<close>

fun readLoop ::
  "nat \<Rightarrow> 'm Proto \<Rightarrow> ('c \<Rightarrow> byte \<Rightarrow> nat \<Rightarrow> 'c \<times> byte list \<times> int \<times> error option)
    \<Rightarrow> peer_ref \<Rightarrow> (byte \<times> 'r) list \<Rightarrow> (byte \<rightharpoonup> 'm) \<Rightarrow> 'c \<Rightarrow> peer
    \<Rightarrow> (outcome \<times> 'c \<times> peer \<times> ('m, 'r) effect list) option" where
  "readLoop 0 px connRead self rs mts c p = None"
| "readLoop (Suc fuel) px connRead self rs mts c p =
     (if Quit p then Some (Return, c, p, [])
      else
        (case readLoop_range px connRead self mts rs c p of
           (Continue, c', p', effs) \<Rightarrow>
             (case readLoop fuel px connRead self rs mts c' p' of
                None \<Rightarrow> None
              | Some (oc, c'', p'', effs') \<Rightarrow> Some (oc, c'', p'', effs @ effs'))
         | (oc, c', p', effs) \<Rightarrow> Some (oc, c', p', effs)))"

subsection \<open>The metrics reporter\<close>

text \<open>
  The function literal of \<^verbatim>\<open>metricsReporter\<close> that reports the pending bytes: one entry,
  the \<^verbatim>\<open>range\<close> loop over the entries, and the whole literal between \<^verbatim>\<open>Lock\<close> and the
  deferred \<^verbatim>\<open>Unlock\<close>.
\<close>

definition flushEntry ::
  "peerPendingMetricsCacheEntry \<Rightarrow> peerPendingMetricsCacheEntry \<times> ('m, 'r) effect list" where
  "flushEntry entry =
     (case (if pendingSendBytes entry > 0 then
              (entry\<lparr>pendingSendBytes := 0\<rparr>,
               [CounterAdd ''MessageSendBytesTotal'' ''message_type'' (label entry)
                  (float64_of_int (pendingSendBytes entry))])
            else (entry, [])) of
        (entry1, effs1) \<Rightarrow>
          (case (if pendingRecvBytes entry1 > 0 then
                   (entry1\<lparr>pendingRecvBytes := 0\<rparr>,
                    [CounterAdd ''MessageReceiveBytesTotal'' ''message_type'' (label entry1)
                       (float64_of_int (pendingRecvBytes entry1))])
                 else (entry1, [])) of
             (entry2, effs2) \<Rightarrow> (entry2, effs1 @ effs2)))"

fun flushEntries ::
  "(string \<times> peerPendingMetricsCacheEntry) list
    \<Rightarrow> (string \<times> peerPendingMetricsCacheEntry) list \<times> ('m, 'r) effect list" where
  "flushEntries [] = ([], [])"
| "flushEntries ((msgType, entry) # rest) =
     (case flushEntry entry of
        (entry', effs) \<Rightarrow>
          (case flushEntries rest of
             (rest', effs') \<Rightarrow> ((msgType, entry') # rest', effs @ effs')))"

definition flushPending ::
  "peerPendingMetricsCache \<Rightarrow> peerPendingMetricsCache \<times> ('m, 'r) effect list" where
  "flushPending c =
     (case flushEntries (perMessageCache c) of
        (entries', effs) \<Rightarrow> (c\<lparr>perMessageCache := entries'\<rparr>, MtxLock # effs @ [MtxUnlock]))"

text \<open>
  One tick of \<^verbatim>\<open>metricsReporter\<close>: \<open>status\<close> is what \<^verbatim>\<open>p.mconn.Status()\<close> returns.
\<close>

definition metricsReporter_tick ::
  "ConnectionStatus \<Rightarrow> peer \<Rightarrow> peer \<times> ('m, 'r) effect list" where
  "metricsReporter_tick status p =
     (let sendQueueSize = sum_list (map SendQueueSize (ConnectionStatus.Channels status))
      in case flushPending (pendingMetrics p) of
           (c', effs) \<Rightarrow>
             (p\<lparr>pendingMetrics := c'\<rparr>,
              [ConnStatus,
               CounterAdd ''RecvRateLimiterDelay'' ''peer_id'' (peer_ID p)
                 (Seconds (SleepTime (RecvMonitor status))),
               CounterAdd ''SendRateLimiterDelay'' ''peer_id'' (peer_ID p)
                 (Seconds (SleepTime (SendMonitor status))),
               GaugeSet ''PeerPendingSendBytes'' ''peer_id'' (peer_ID p)
                 (float64_of_int sendQueueSize)] @ effs))"

text \<open>
  What a list of effects adds to the counter \<open>name\<close> under the label value \<open>l\<close>, and the
  pending bytes a cache holds for a label.
\<close>

fun counterAdded :: "string \<Rightarrow> string \<Rightarrow> ('m, 'r) effect list \<Rightarrow> int" where
  "counterAdded name l [] = 0"
| "counterAdded name l (CounterAdd name' k l' (float64_of_int v) # effs) =
     (if name' = name \<and> l' = l then v else 0) + counterAdded name l effs"
| "counterAdded name l (eff # effs) = counterAdded name l effs"

definition pendingSendOf :: "string \<Rightarrow> (string \<times> peerPendingMetricsCacheEntry) list \<Rightarrow> int" where
  "pendingSendOf l entries =
     sum_list (map (\<lambda>(k, e). if label e = l then pendingSendBytes e else 0) entries)"

definition pendingRecvOf :: "string \<Rightarrow> (string \<times> peerPendingMetricsCacheEntry) list \<Rightarrow> int" where
  "pendingRecvOf l entries =
     sum_list (map (\<lambda>(k, e). if label e = l then pendingRecvBytes e else 0) entries)"

text \<open>The bytes \<^verbatim>\<open>send\<close> hands to the connection: the message, wrapped if it is a
  \<^verbatim>\<open>types.Wrapper\<close>, then marshalled.\<close>

definition wireBytes :: "'m Proto \<Rightarrow> 'm \<Rightarrow> error + byte list" where
  "wireBytes px msg = Marshal px (case Wrap px msg of Some w \<Rightarrow> w | None \<Rightarrow> msg)"


definition pendingRecvBytesFor :: "peerPendingMetricsCache \<Rightarrow> string \<Rightarrow> int" where
  "pendingRecvBytesFor c msgType =
     (case map_of (perMessageCache c) msgType of
        Some entry \<Rightarrow> pendingRecvBytes entry
      | None \<Rightarrow> 0)"

text \<open>
  The spec's invariant of the cache: the counts are not negative. It holds of the new
  cache and is kept by adding a non-negative byte count and by the report.
\<close>

definition nonneg_entries :: "(string \<times> peerPendingMetricsCacheEntry) list \<Rightarrow> bool" where
  "nonneg_entries es =
     list_all (\<lambda>(k, e). 0 \<le> pendingSendBytes e \<and> 0 \<le> pendingRecvBytes e) es"

subsection \<open>A small message library and sample peers\<close>

text \<open>
  A miniature of a protobuf message family, on which the operations are evaluated below:
  \<open>Raw\<close> is a plain message that marshals to its bytes; \<open>Txs\<close> is a \<^verbatim>\<open>types.Wrapper\<close>
  whose wire form is \<open>WireMessage\<close>, a \<^verbatim>\<open>types.Unwrapper\<close> with an optional payload
  behind the tag byte 10 (an unset payload marshals to no bytes and does not unwrap; a
  field with the tag byte 18 is unknown to the reader and skipped).
\<close>

datatype demo_msg = Raw "byte list" | Txs "byte list" | WireMessage "byte list option"

fun demo_getMsgType :: "demo_msg \<Rightarrow> string" where
  "demo_getMsgType (Raw b) = ''Raw''"
| "demo_getMsgType (Txs b) = ''Txs''"
| "demo_getMsgType (WireMessage s) = ''WireMessage''"

fun demo_Wrap :: "demo_msg \<Rightarrow> demo_msg option" where
  "demo_Wrap (Txs b) = Some (WireMessage (Some b))"
| "demo_Wrap m = None"

fun demo_Unwrap :: "demo_msg \<Rightarrow> (error + demo_msg) option" where
  "demo_Unwrap (WireMessage (Some b)) = Some (Inr (Txs b))"
| "demo_Unwrap (WireMessage None) = Some (Inl ''unknown message type'')"
| "demo_Unwrap m = None"

fun demo_Marshal :: "demo_msg \<Rightarrow> error + byte list" where
  "demo_Marshal (Raw b) = Inr b"
| "demo_Marshal (Txs b) = Inr b"
| "demo_Marshal (WireMessage (Some b)) = Inr (10 # b)"
| "demo_Marshal (WireMessage None) = Inr []"

fun demo_Unmarshal :: "byte list \<Rightarrow> demo_msg \<Rightarrow> error + demo_msg" where
  "demo_Unmarshal bs (Raw b) = Inr (Raw bs)"
| "demo_Unmarshal bs (Txs b) = Inr (Txs bs)"
| "demo_Unmarshal [] (WireMessage s) = Inr (WireMessage None)"
| "demo_Unmarshal (t # bs) (WireMessage s) =
     (if t = 10 then Inr (WireMessage (Some bs))
      else if t = 18 then Inr (WireMessage None)
      else Inl ''proto: illegal tag'')"

definition demo_proto :: "demo_msg Proto" where
  "demo_proto =
     \<lparr>getMsgType = demo_getMsgType, Wrap = demo_Wrap, Unwrap = demo_Unwrap,
      Marshal = demo_Marshal, Unmarshal = demo_Unmarshal\<rparr>"

definition demo_nodeInfo :: NodeInfo where
  "demo_nodeInfo =
     Default \<lparr>DefaultNodeID = ''peer1'', ListenAddr = ''10.0.0.1:26656'', Channels = [32, 48]\<rparr>"

definition demo_addr :: NetAddr where
  "demo_addr = \<lparr>ID = ''peer1'', IP = ''10.0.0.1'', Port = 26656\<rparr>"

definition demo_peer :: "lifecycle \<Rightarrow> peer" where
  "demo_peer st =
     \<lparr>BaseService = st,
      peerConn = \<lparr>peerConn.outbound = True, persistent = False, socketAddr = Some demo_addr\<rparr>,
      nodeInfo = demo_nodeInfo,
      channels = [32, 48],
      peer.metrics = NopMetrics,
      pendingMetrics = newPeerPendingMetricsCache,
      removalAttemptFailed = False\<rparr>"

definition full_write :: "byte \<Rightarrow> byte list \<Rightarrow> int \<times> error option" where
  "full_write streamID bs = (int (length bs), None)"

definition failed_write :: "byte \<Rightarrow> byte list \<Rightarrow> int \<times> error option" where
  "failed_write streamID bs = (0, Some ''i/o timeout'')"

definition demo_reactors :: "(byte \<times> string) list" where
  "demo_reactors = [(32, ''consensus''), (48, ''mempool'')]"

definition demo_msgTypes :: "byte \<rightharpoonup> demo_msg" where
  "demo_msgTypes = [32 \<mapsto> Raw [], 48 \<mapsto> WireMessage None]"

definition demo_cfg :: "bool \<Rightarrow> (NetAddr option \<Rightarrow> bool) option \<Rightarrow> (demo_msg, string) peerConfig" where
  "demo_cfg ob pred =
     \<lparr>peerConfig.outbound = ob, isPersistent = pred, reactorsByStreamID = demo_reactors,
      msgTypeByStreamID = demo_msgTypes, metrics = MetricsSink ''p2p''\<rparr>"
definition demo_cache :: peerPendingMetricsCache where
  "demo_cache =
     \<lparr>perMessageCache =
        [(''Txs'', \<lparr>label = ''Txs'', pendingSendBytes = 4, pendingRecvBytes = 0\<rparr>),
         (''Raw'', \<lparr>label = ''Raw'', pendingSendBytes = 2, pendingRecvBytes = 7\<rparr>)]\<rparr>"

definition demo_status :: ConnectionStatus where
  "demo_status =
     \<lparr>ConnectionStatus.Channels = [\<lparr>SendQueueSize = 3\<rparr>, \<lparr>SendQueueSize = 5\<rparr>],
      SendMonitor = \<lparr>SleepTime = 0\<rparr>, RecvMonitor = \<lparr>SleepTime = 0\<rparr>\<rparr>"

text \<open>A connection whose reads return the results of a script, one after the other.\<close>

definition script_read ::
  "(byte list \<times> int \<times> error option) list \<Rightarrow> byte \<Rightarrow> nat
    \<Rightarrow> (byte list \<times> int \<times> error option) list \<times> byte list \<times> int \<times> error option" where
  "script_read c streamID len =
     (case c of [] \<Rightarrow> ([], [], 0, None) | r # rs \<Rightarrow> (rs, r))"

section \<open>Signed 64-bit arithmetic\<close>

lemma sint_of_int_64:
  "- (2 ^ 63) \<le> k \<Longrightarrow> k < 2 ^ 63 \<Longrightarrow> sint (word_of_int k :: 64 word) = k"
  by (simp add: sint_sbintrunc' signed_take_bit_int_eq_self)

lemma sint_sub_64:
  fixes a b :: "64 word"
  shows "- (2 ^ 63) \<le> sint a - sint b \<Longrightarrow> sint a - sint b < 2 ^ 63
    \<Longrightarrow> sint (a - b) = sint a - sint b"
  by (simp add: sint_word_diff signed_take_bit_int_eq_self)

lemma sint_add_64:
  fixes a b :: "64 word"
  shows "- (2 ^ 63) \<le> sint a + sint b \<Longrightarrow> sint a + sint b < 2 ^ 63
    \<Longrightarrow> sint (a + b) = sint a + sint b"
  by (simp add: sint_word_add signed_take_bit_int_eq_self)

lemma sint_bounds_64:
  fixes a :: "64 word"
  shows "- (2 ^ 63) \<le> sint a" and "sint a < 2 ^ 63"
  using sint_ge [of a] sint_lt [of a] by simp_all

lemma sint_quo_nonneg:
  assumes "0 \<le> sint a" and "0 < k" and "k < 2 ^ 63"
  shows "sint (quo a (word_of_int k)) = sint a div k"
proof -
  have k: "sint (word_of_int k :: 64 word) = k"
    using assms by (intro sint_of_int_64) auto
  have "sint a sdiv k = sint a div k"
    using assms by (simp add: signed_divide_int_def sgn_if)
  moreover have "0 \<le> sint a div k"
    using assms by (simp add: pos_imp_zdiv_nonneg_iff)
  moreover have "sint a div k \<le> sint a"
    using assms by (smt (verit) div_by_1 zdiv_mono2)
  ultimately show ?thesis
    using sint_bounds_64 [of a] by (simp add: quo_def k sint_of_int_64)
qed

lemma sint_minDuration: "sint minDuration = - (2 ^ 63)"
  by (simp add: minDuration_def)

lemma sint_maxDuration: "sint maxDuration = 2 ^ 63 - 1"
  by (simp add: maxDuration_def)

lemma minDuration_iff: "d = minDuration \<longleftrightarrow> sint d = - (2 ^ 63)"
  using sint_minDuration signed_word_eqI [of d minDuration, where ?'a = int] by auto

lemma sint_neg_64:
  fixes a :: "64 word"
  shows "sint a \<noteq> - (2 ^ 63) \<Longrightarrow> sint (- a) = - sint a"
  using sint_sub_64 [of 0 a] sint_bounds_64 [of a] by simp

lemma sint_Duration_Abs:
  "sint (Duration_Abs d) = (if d = minDuration then 2 ^ 63 - 1 else \<bar>sint d\<bar>)"
  using sint_bounds_64 [of d]
  by (auto simp: Duration_Abs_def word_sle_eq sint_maxDuration sint_minDuration
      minDuration_iff sint_neg_64)

section \<open>CalculateDelay: results\<close>

lemma CalculateDelay_early_return:
  "snd (Load store) \<noteq> None
   \<or> snd (LoadConsensusParams store (Height (Header b) - 1)) \<noteq> None
   \<or> IsZero (GenesisTime (fst (Load store)))
   \<Longrightarrow> CalculateDelay store b = 0"
  by (auto simp: CalculateDelay_def Let_def split: prod.splits)

lemma CalculateDelay_in_range:
  assumes ld: "Load store = (st, None)"
    and cp: "LoadConsensusParams store (Height (Header b) - 1) = (cp, None)"
    and gz: "\<not> IsZero (GenesisTime st)"
    and bt: "0 \<le> sint (BlockTime (Block cp))"
    and ideal: "ideal = idealDelay (BlockTime (Block cp))"
    and thr: "threshold = deflectionThreshold (BlockTime (Block cp))"
    and nov: "sint ideal + sint threshold < 2 ^ 63"
  shows "sint ideal - sint threshold \<le> sint (CalculateDelay store b)
       \<and> sint (CalculateDelay store b) \<le> sint ideal + sint threshold"
proof -
  let ?bt = "BlockTime (Block cp)"
  have q10: "sint (quo ?bt MsgProcDelayRatio) = sint ?bt div 10"
    using sint_quo_nonneg [OF bt, of 10] by (simp add: MsgProcDelayRatio_def)
  have I: "sint ideal = sint ?bt - sint ?bt div 10"
    unfolding ideal idealDelay_def using bt sint_bounds_64 [of ?bt] q10
    by (intro sint_sub_64 [THEN trans]) auto
  have I0: "0 \<le> sint ideal"
    using I bt by linarith
  have T: "sint threshold = sint ideal div 5"
    unfolding thr deflectionThreshold_def ideal [symmetric]
    using sint_quo_nonneg [OF I0, of 5] by (simp add: DeflectionRatio_def)
  have T0: "0 \<le> sint threshold" "sint threshold \<le> sint ideal"
    using T I0 by linarith+
  have lo: "sint (ideal - threshold) = sint ideal - sint threshold"
    using T0 I0 sint_bounds_64 [of ideal] by (intro sint_sub_64) auto
  have hi: "sint (ideal + threshold) = sint ideal + sint threshold"
    using T0 I0 nov by (intro sint_add_64) auto
  define diff where
    "diff = Time_Sub (Time (Header b)) (GenesisTime st) - ?bt * (Height (Header b) - 1)"
  have res: "CalculateDelay store b =
      (if threshold <s Duration_Abs diff then
         (if 0 <s diff then ideal - threshold else ideal + threshold)
       else ideal - diff)"
    using ld cp gz
    by (simp add: CalculateDelay_def Let_def ideal thr diff_def idealDelay_def
        deflectionThreshold_def)
  show ?thesis
  proof (cases "threshold <s Duration_Abs diff")
    case True
    then show ?thesis
      using res lo hi T0 by auto
  next
    case False
    then have "sint (Duration_Abs diff) \<le> sint threshold"
      by (simp add: word_sless_alt)
    then have small: "\<bar>sint diff\<bar> \<le> sint threshold"
      using nov I0 T0 by (auto simp: sint_Duration_Abs split: if_splits)
    then have "sint (ideal - diff) = sint ideal - sint diff"
      using nov I0 sint_bounds_64 [of ideal] by (intro sint_sub_64) auto
    then show ?thesis
      using res False small by auto
  qed
qed

text \<open>
  C9. The two versions of CalculateDelay, the one written with the literals 10 and 5 and
  the one written with MsgProcDelayRatio and DeflectionRatio, return the same duration
  for every store (whatever state, consensus parameters and errors it returns) and every
  current block.
\<close>

theorem CalculateDelay_versions_agree:
  "CalculateDelay_literal store currentBlock = CalculateDelay store currentBlock"
  unfolding CalculateDelay_literal_def CalculateDelay_def MsgProcDelayRatio_def
    DeflectionRatio_def Let_def
  by (rule refl)

text \<open>
  C10, as amended. When either load fails or the loaded genesis time is zero,
  CalculateDelay returns 0. When both loads succeed and the genesis time is not zero,
  and moreover the block time is not negative and \<open>ideal + threshold\<close> fits an int64, the
  result lies between \<open>ideal - threshold\<close> and \<open>ideal + threshold\<close>, where
  \<open>ideal = blockTime - blockTime / MsgProcDelayRatio\<close> and
  \<open>threshold = ideal / DeflectionRatio\<close>.
\<close>

theorem CalculateDelay_bounds:
  "(case Load store of (state, err1) \<Rightarrow>
    case LoadConsensusParams store (Height (Header currentBlock) - 1) of
      (consensusParams, err2) \<Rightarrow>
    if err1 \<noteq> None \<or> err2 \<noteq> None \<or> IsZero (GenesisTime state)
    then CalculateDelay store currentBlock = 0
    else
      0 \<le>s BlockTime (Block consensusParams) \<and>
      sint (idealDelay (BlockTime (Block consensusParams)))
        + sint (deflectionThreshold (BlockTime (Block consensusParams))) < 2 ^ 63
      \<longrightarrow>
      sint (idealDelay (BlockTime (Block consensusParams)))
        - sint (deflectionThreshold (BlockTime (Block consensusParams)))
          \<le> sint (CalculateDelay store currentBlock) \<and>
      sint (CalculateDelay store currentBlock)
          \<le> sint (idealDelay (BlockTime (Block consensusParams)))
            + sint (deflectionThreshold (BlockTime (Block consensusParams))))"
proof -
  obtain state err1 where ld: "Load store = (state, err1)"
    by (cases "Load store")
  obtain consensusParams err2 where
    cp: "LoadConsensusParams store (Height (Header currentBlock) - 1) = (consensusParams, err2)"
    by (cases "LoadConsensusParams store (Height (Header currentBlock) - 1)")
  show ?thesis
  proof (cases "err1 \<noteq> None \<or> err2 \<noteq> None \<or> IsZero (GenesisTime state)")
    case True
    then have "CalculateDelay store currentBlock = 0"
      using ld cp by (intro CalculateDelay_early_return) auto
    then show ?thesis
      using True ld cp by simp
  next
    case False
    then have ld': "Load store = (state, None)"
      and cp': "LoadConsensusParams store (Height (Header currentBlock) - 1)
                  = (consensusParams, None)"
      and gz: "\<not> IsZero (GenesisTime state)"
      using ld cp by auto
    show ?thesis
      using False ld cp CalculateDelay_in_range [OF ld' cp' gz _ refl refl]
      by (simp add: word_sle_eq)
  qed
qed

theorem CalculateDelay_bounds_witness:
  "Load second_store = (\<lparr>GenesisTime = 1700000000000000000\<rparr>, None)
   \<and> LoadConsensusParams second_store (Height (Header late_block) - 1)
       = (\<lparr>Block = \<lparr>BlockTime = 1000000000\<rparr>\<rparr>, None)
   \<and> \<not> IsZero 1700000000000000000
   \<and> (0::Duration) \<le>s 1000000000
   \<and> sint (idealDelay 1000000000) = 900000000
   \<and> sint (deflectionThreshold 1000000000) = 180000000
   \<and> 720000000 \<le> sint (CalculateDelay second_store late_block)
   \<and> sint (CalculateDelay second_store late_block) \<le> 1080000000"
proof -
  have i: "sint (idealDelay 1000000000) = 900000000"
    by (simp add: idealDelay_def quo_def MsgProcDelayRatio_def signed_divide_int_def)
  have t: "sint (deflectionThreshold 1000000000) = 180000000"
    by (simp add: deflectionThreshold_def idealDelay_def quo_def MsgProcDelayRatio_def
        DeflectionRatio_def signed_divide_int_def)
  have p: "(0::Duration) \<le>s 1000000000"
    by (simp add: word_sle_eq)
  show ?thesis
    using CalculateDelay_bounds [of second_store late_block] i t p
    by (simp add: second_store_def late_block_def IsZero_def)
qed

text \<open>
  The bound fails without the side condition on the block time. With a block time of
  -10ns, the first block at the genesis time gives a delay of -10ns, although
  \<open>ideal - threshold\<close> is -8ns.
\<close>

theorem CalculateDelay_bounds_counterexample:
  "Load negative_store = (\<lparr>GenesisTime = 1\<rparr>, None)
   \<and> LoadConsensusParams negative_store (Height (Header first_block) - 1)
       = (\<lparr>Block = \<lparr>BlockTime = - 10\<rparr>\<rparr>, None)
   \<and> \<not> IsZero 1
   \<and> sint (idealDelay (- 10)) = - 9
   \<and> sint (deflectionThreshold (- 10)) = - 1
   \<and> sint (CalculateDelay negative_store first_block) = - 10
   \<and> \<not> (sint (idealDelay (- 10)) - sint (deflectionThreshold (- 10))
          \<le> sint (CalculateDelay negative_store first_block))"
  by (simp add: negative_store_def first_block_def CalculateDelay_def Let_def IsZero_def
      Time_Sub_def quo_def idealDelay_def deflectionThreshold_def MsgProcDelayRatio_def
      DeflectionRatio_def Duration_Abs_def word_sless_alt word_sle_eq signed_divide_int_def)

section \<open>The peer: results\<close>


lemma HasChannel_scan_iff: "HasChannel_scan chs chID \<longleftrightarrow> chID \<in> set chs"
  by (induction chs) auto

lemma HasChannel_iff: "HasChannel p chID \<longleftrightarrow> chID \<in> set (channels p)"
  by (simp add: HasChannel_def HasChannel_scan_iff)

lemma channels_foldl_applyOption:
  "channels (foldl applyOption p opts) = channels p"
proof (induction opts arbitrary: p)
  case Nil
  show ?case by simp
next
  case (Cons opt opts)
  show ?case by (cases opt) (simp add: Cons.IH)
qed

lemma peerConn_foldl_applyOption:
  "peerConn (foldl applyOption p opts) = peerConn p"
proof (induction opts arbitrary: p)
  case Nil
  show ?case by simp
next
  case (Cons opt opts)
  show ?case by (cases opt) (simp add: Cons.IH)
qed

lemma BaseService_foldl_applyOption:
  "BaseService (foldl applyOption p opts) = BaseService p"
proof (induction opts arbitrary: p)
  case Nil
  show ?case by simp
next
  case (Cons opt opts)
  show ?case by (cases opt) (simp add: Cons.IH)
qed

lemma send_unfold:
  "send px p streamID msg sendFunc =
     (if IsRunning p \<and> HasChannel p streamID then
        (case wireBytes px msg of
           Inl err \<Rightarrow> (False, p, [LogError ''Can't marshal msg''])
         | Inr bs \<Rightarrow>
             if snd (sendFunc streamID bs) \<noteq> None then
               (False, p, [ConnWrite streamID bs, LogError ''Failed to send msg to stream''])
             else if fst (sendFunc streamID bs) \<noteq> int (length bs) then
               (False, p, [ConnWrite streamID bs, LogError ''Message not sent completely''])
             else
               (True,
                p\<lparr>pendingMetrics :=
                    AddPendingSendBytes (pendingMetrics p) (getMsgType px msg) (int (length bs))\<rparr>,
                [ConnWrite streamID bs]))
      else (False, p, []))"
  by (auto simp: send_def wireBytes_def Let_def split: sum.splits prod.splits)


lemma map_of_upsert:
  "map_of (upsert k new f kvs) k' =
     (if k' = k then Some (f (case map_of kvs k of Some v \<Rightarrow> v | None \<Rightarrow> new))
      else map_of kvs k')"
  by (induction kvs) auto


lemma pendingRecvBytesFor_AddPendingSendBytes:
  "pendingRecvBytesFor (AddPendingSendBytes c msgType n) msgType'
     = pendingRecvBytesFor c msgType'"
  by (simp add: pendingRecvBytesFor_def AddPendingSendBytes_def map_of_upsert
      split: option.splits)

lemma send_contract:
  fixes px :: "'m Proto" and sendFunc :: "byte \<Rightarrow> byte list \<Rightarrow> int \<times> error option"
  assumes "send px p streamID msg sendFunc = (ok, p', (effs :: ('m, 'r) effect list))"
  shows "ok \<longleftrightarrow> IsRunning p \<and> HasChannel p streamID
            \<and> (\<exists>bs. wireBytes px msg = Inr bs \<and> sendFunc streamID bs = (int (length bs), None))"
    and "\<not> ok \<Longrightarrow> p' = p"
    and "\<not> IsRunning p \<or> \<not> HasChannel p streamID \<Longrightarrow> effs = []"
    and "ok \<Longrightarrow> \<exists>bs. wireBytes px msg = Inr bs \<and> effs = [ConnWrite streamID bs]
            \<and> p' = p\<lparr>pendingMetrics :=
                  AddPendingSendBytes (pendingMetrics p) (getMsgType px msg) (int (length bs))\<rparr>"
    and "(\<exists>bs. ConnWrite streamID bs \<in> set effs)
            \<longleftrightarrow> IsRunning p \<and> HasChannel p streamID \<and> (\<exists>bs. wireBytes px msg = Inr bs)"
    and "\<forall>sid bs. ConnWrite sid bs \<in> set effs \<longrightarrow> sid = streamID \<and> wireBytes px msg = Inr bs"
  using assms
  by (auto simp: send_unfold prod_eq_iff split: if_splits sum.splits)




lemmas demo_defs = demo_peer_def demo_proto_def demo_nodeInfo_def demo_addr_def full_write_def
  failed_write_def demo_reactors_def demo_msgTypes_def demo_cfg_def demo_cache_def
  demo_status_def script_read_def



text \<open>
  C7. For a peer constructed by \<^verbatim>\<open>newPeer\<close>, \<^verbatim>\<open>HasChannel\<close> is true exactly for the channel
  IDs in the node info's \<^verbatim>\<open>Channels\<close>, whatever the dispatch table holds. For a channel ID
  that is not among them, in any later lifecycle state and with any cache, \<^verbatim>\<open>HasChannel\<close>
  is false and \<^verbatim>\<open>Send\<close> and \<^verbatim>\<open>TrySend\<close> return false, leave the peer unchanged and make
  no call but the deadline one: the connection's write is not called.
\<close>

theorem HasChannel_capabilities:
  fixes px :: "'m Proto" and rs :: "(byte \<times> 'r) list"
  shows
  "(case newPeer pc (Default d) rs mts opts of
      Inl pn \<Rightarrow> False
    | Inr (p, effs0) \<Rightarrow>
        (HasChannel p chID \<longleftrightarrow> chID \<in> set (Channels d))
        \<and> (chID \<notin> set (Channels d) \<longrightarrow>
             \<not> HasChannel (p\<lparr>BaseService := st, pendingMetrics := cache\<rparr>) chID
             \<and> (Send px now connWrite (p\<lparr>BaseService := st, pendingMetrics := cache\<rparr>)
                   \<lparr>ChannelID = chID, Src = src, Message = msg\<rparr>
                  :: bool \<times> peer \<times> ('m, 'r) effect list)
                = (False, p\<lparr>BaseService := st, pendingMetrics := cache\<rparr>,
                   [SetWriteDeadline (now + 10 * Second)])
             \<and> (TrySend px now connWrite (p\<lparr>BaseService := st, pendingMetrics := cache\<rparr>)
                   \<lparr>ChannelID = chID, Src = src, Message = msg\<rparr>
                  :: bool \<times> peer \<times> ('m, 'r) effect list)
                = (False, p\<lparr>BaseService := st, pendingMetrics := cache\<rparr>,
                   [SetWriteDeadline (now + 100 * Millisecond)])))"
  by (simp add: newPeer_def Let_def HasChannel_iff channels_foldl_applyOption
      Send_def TrySend_def send_unfold)

theorem HasChannel_capabilities_witness:
  "(64 :: byte) \<notin> set [32, 48]
   \<and> (\<exists>p. newPeer \<lparr>peerConn.outbound = True, persistent = False, socketAddr = None\<rparr>
            demo_nodeInfo ((64, ''blocksync'') # demo_reactors) (demo_msgTypes(64 \<mapsto> Raw [])) []
          = Inr (p, [Go (readLoop_task ((64, ''blocksync'') # demo_reactors)
                       (demo_msgTypes(64 \<mapsto> Raw [])))])
        \<and> HasChannel p 32 \<and> \<not> HasChannel p 64
        \<and> (Send demo_proto 0 full_write (p\<lparr>BaseService := Running,
                pendingMetrics := newPeerPendingMetricsCache\<rparr>)
              \<lparr>ChannelID = 64, Src = 0, Message = Raw [7]\<rparr>
             :: bool \<times> peer \<times> (demo_msg, string) effect list)
           = (False, p\<lparr>BaseService := Running, pendingMetrics := newPeerPendingMetricsCache\<rparr>,
              [SetWriteDeadline 10000000000]))"
  using HasChannel_capabilities [where pc = "\<lparr>peerConn.outbound = True, persistent = False, socketAddr = None\<rparr>"
      and d = "\<lparr>DefaultNodeID = ''peer1'', ListenAddr = ''10.0.0.1:26656'', Channels = [32, 48]\<rparr>"
      and rs = "(64, ''blocksync'') # demo_reactors" and mts = "demo_msgTypes(64 \<mapsto> Raw [])"
      and opts = "[]" and chID = 64 and st = Running and cache = newPeerPendingMetricsCache
      and px = demo_proto and now = 0 and connWrite = full_write and src = 0 and msg = "Raw [7]"]
    HasChannel_capabilities [where pc = "\<lparr>peerConn.outbound = True, persistent = False, socketAddr = None\<rparr>"
      and d = "\<lparr>DefaultNodeID = ''peer1'', ListenAddr = ''10.0.0.1:26656'', Channels = [32, 48]\<rparr>"
      and rs = "(64, ''blocksync'') # demo_reactors" and mts = "demo_msgTypes(64 \<mapsto> Raw [])"
      and opts = "[]" and chID = 32 and st = Running and cache = newPeerPendingMetricsCache
      and px = demo_proto and now = 0 and connWrite = full_write and src = 0 and msg = "Raw [7]"]
  by (simp add: newPeer_def demo_nodeInfo_def Second_def Let_def)


text \<open>
  C8. \<^verbatim>\<open>wrapPeer\<close> returns a peer whose \<^verbatim>\<open>IsPersistent\<close> is: false when no predicate is
  supplied; the predicate of the socket address for an outbound peer; for an inbound
  peer the predicate of the self-reported address when \<^verbatim>\<open>NetAddr()\<close> returns no error, and
  false (not an error) when it returns one.
\<close>

theorem wrapPeer_persistence:
  fixes cfg :: "('m, 'r) peerConfig"
  shows
  "\<exists>p. wrapPeer ni_NetAddr (Default d) cfg addr
         = Inr (p, [Go (readLoop_task (reactorsByStreamID cfg) (msgTypeByStreamID cfg))])
       \<and> IsPersistent p =
           (case isPersistent cfg of
              None \<Rightarrow> False
            | Some f \<Rightarrow>
                if peerConfig.outbound cfg then f addr
                else (case ni_NetAddr (Default d) of
                        (selfReportedAddr, err) \<Rightarrow>
                          (case err of None \<Rightarrow> f selfReportedAddr | Some x \<Rightarrow> False)))
       \<and> IsOutbound p = peerConfig.outbound cfg"
  by (auto simp: wrapPeer_def newPeer_def newPeerConn_def Let_def IsPersistent_def
      IsOutbound_def split: option.splits prod.splits)

theorem wrapPeer_persistence_witness:
  "(\<exists>p. wrapPeer (\<lambda>i. (Some demo_addr, None)) demo_nodeInfo
           (demo_cfg True (Some (\<lambda>a. a = Some demo_addr))) (Some demo_addr)
         = Inr (p, [Go (readLoop_task demo_reactors demo_msgTypes)])
        \<and> IsPersistent p)
   \<and> (\<exists>p. wrapPeer (\<lambda>i. (None, Some ''invalid address'')) demo_nodeInfo
           (demo_cfg False (Some (\<lambda>a. True))) (Some demo_addr)
         = Inr (p, [Go (readLoop_task demo_reactors demo_msgTypes)])
        \<and> \<not> IsPersistent p)
   \<and> (\<exists>p. wrapPeer (\<lambda>i. (Some demo_addr, None)) demo_nodeInfo
           (demo_cfg False (Some (\<lambda>a. a = Some demo_addr))) None
         = Inr (p, [Go (readLoop_task demo_reactors demo_msgTypes)])
        \<and> IsPersistent p)
   \<and> (\<exists>p. wrapPeer (\<lambda>i. (Some demo_addr, None)) demo_nodeInfo
           (demo_cfg True None) (Some demo_addr)
         = Inr (p, [Go (readLoop_task demo_reactors demo_msgTypes)])
        \<and> \<not> IsPersistent p)"
  using
    wrapPeer_persistence [where ni_NetAddr = "\<lambda>i. (Some demo_addr, None)"
      and d = "\<lparr>DefaultNodeID = ''peer1'', ListenAddr = ''10.0.0.1:26656'', Channels = [32, 48]\<rparr>"
      and cfg = "demo_cfg True (Some (\<lambda>a. a = Some demo_addr))" and addr = "Some demo_addr"]
    wrapPeer_persistence [where ni_NetAddr = "\<lambda>i. (None, Some ''invalid address'')"
      and d = "\<lparr>DefaultNodeID = ''peer1'', ListenAddr = ''10.0.0.1:26656'', Channels = [32, 48]\<rparr>"
      and cfg = "demo_cfg False (Some (\<lambda>a. True))" and addr = "Some demo_addr"]
    wrapPeer_persistence [where ni_NetAddr = "\<lambda>i. (Some demo_addr, None)"
      and d = "\<lparr>DefaultNodeID = ''peer1'', ListenAddr = ''10.0.0.1:26656'', Channels = [32, 48]\<rparr>"
      and cfg = "demo_cfg False (Some (\<lambda>a. a = Some demo_addr))" and addr = None]
    wrapPeer_persistence [where ni_NetAddr = "\<lambda>i. (Some demo_addr, None)"
      and d = "\<lparr>DefaultNodeID = ''peer1'', ListenAddr = ''10.0.0.1:26656'', Channels = [32, 48]\<rparr>"
      and cfg = "demo_cfg True None" and addr = "Some demo_addr"]
  by (simp add: demo_cfg_def demo_nodeInfo_def) blast

text \<open>
  C4, as amended. \<^verbatim>\<open>newPeer\<close> returns a peer in state Created, not Running, and itself
  launches the read loop. \<^verbatim>\<open>Start\<close> takes that peer to Running and launches the metrics
  reporter, and nothing else.
\<close>

theorem newPeer_Start_launches:
  fixes rs :: "(byte \<times> 'r) list" and mts :: "byte \<rightharpoonup> 'm"
  shows
  "\<exists>p. newPeer pc (Default d) rs mts opts = Inr (p, [Go (readLoop_task rs mts)])
       \<and> BaseService p = Created \<and> \<not> IsRunning p
       \<and> (Start None p :: error option \<times> peer \<times> ('m, 'r) effect list)
           = (None, p\<lparr>BaseService := Running\<rparr>, [Go metricsReporter_task])
       \<and> IsRunning (p\<lparr>BaseService := Running\<rparr>)"
  by (simp add: newPeer_def Let_def BaseService_foldl_applyOption NewBaseService_def
      IsRunning_def Start_def OnStart_def)

text \<open>
  C4 as stated fails: the read loop is launched by the construction, before \<^verbatim>\<open>Start\<close> is
  called, and \<^verbatim>\<open>Start\<close> does not launch it.
\<close>

theorem newPeer_launches_readLoop_counterexample:
  "(\<exists>p. newPeer \<lparr>peerConn.outbound = True, persistent = False, socketAddr = None\<rparr>
          demo_nodeInfo demo_reactors demo_msgTypes []
        = Inr (p, [Go (readLoop_task demo_reactors demo_msgTypes)])
       \<and> BaseService p = Created
       \<and> (Start None p :: error option \<times> peer \<times> (demo_msg, string) effect list)
           = (None, p\<lparr>BaseService := Running\<rparr>, [Go metricsReporter_task])
       \<and> Go (readLoop_task demo_reactors demo_msgTypes)
           \<notin> set (snd (snd (Start None p :: error option \<times> peer \<times> (demo_msg, string) effect list))))"
  by (simp add: newPeer_def Let_def demo_nodeInfo_def NewBaseService_def Start_def OnStart_def)


subsection \<open>The pending-metrics cache and its report\<close>

lemma counterAdded_append:
  "counterAdded name l (xs @ ys) = counterAdded name l xs + counterAdded name l ys"
  by (induction name l xs rule: counterAdded.induct) auto

lemma flushEntry_nonneg:
  assumes "0 \<le> pendingSendBytes entry" and "0 \<le> pendingRecvBytes entry"
  shows "fst (flushEntry entry :: peerPendingMetricsCacheEntry \<times> ('m, 'r) effect list)
           = entry\<lparr>pendingSendBytes := 0, pendingRecvBytes := 0\<rparr>"
    and "counterAdded ''MessageSendBytesTotal'' l
           (snd (flushEntry entry :: peerPendingMetricsCacheEntry \<times> ('m, 'r) effect list))
           = (if label entry = l then pendingSendBytes entry else 0)"
    and "counterAdded ''MessageReceiveBytesTotal'' l
           (snd (flushEntry entry :: peerPendingMetricsCacheEntry \<times> ('m, 'r) effect list))
           = (if label entry = l then pendingRecvBytes entry else 0)"
    and "MtxLock \<notin> set (snd (flushEntry entry :: peerPendingMetricsCacheEntry \<times> ('m, 'r) effect list))"
    and "MtxUnlock \<notin> set (snd (flushEntry entry :: peerPendingMetricsCacheEntry \<times> ('m, 'r) effect list))"
  using assms by (auto simp: flushEntry_def)

lemma flushEntry_zero:
  assumes "pendingSendBytes entry = 0" and "pendingRecvBytes entry = 0"
  shows "(flushEntry entry :: peerPendingMetricsCacheEntry \<times> ('m, 'r) effect list) = (entry, [])"
  using assms by (simp add: flushEntry_def)


lemma flushEntries_fst:
  "nonneg_entries es \<Longrightarrow>
   fst (flushEntries es :: (string \<times> peerPendingMetricsCacheEntry) list \<times> ('m, 'r) effect list)
     = map (\<lambda>(k, e). (k, e\<lparr>pendingSendBytes := 0, pendingRecvBytes := 0\<rparr>)) es"
  by (induction es) (auto simp: nonneg_entries_def flushEntry_def split: prod.splits)

lemma flushEntries_send_total:
  "nonneg_entries es \<Longrightarrow>
   counterAdded ''MessageSendBytesTotal'' l
     (snd (flushEntries es :: (string \<times> peerPendingMetricsCacheEntry) list \<times> ('m, 'r) effect list))
     = pendingSendOf l es"
  by (induction es)
    (auto simp: nonneg_entries_def flushEntry_def pendingSendOf_def counterAdded_append
      split: prod.splits)

lemma flushEntries_recv_total:
  "nonneg_entries es \<Longrightarrow>
   counterAdded ''MessageReceiveBytesTotal'' l
     (snd (flushEntries es :: (string \<times> peerPendingMetricsCacheEntry) list \<times> ('m, 'r) effect list))
     = pendingRecvOf l es"
  by (induction es)
    (auto simp: nonneg_entries_def flushEntry_def pendingRecvOf_def counterAdded_append
      split: prod.splits)

lemma flushEntries_no_mutex:
  "MtxLock \<notin> set (snd (flushEntries es :: (string \<times> peerPendingMetricsCacheEntry) list \<times> ('m, 'r) effect list))
   \<and> MtxUnlock \<notin> set (snd (flushEntries es :: (string \<times> peerPendingMetricsCacheEntry) list \<times> ('m, 'r) effect list))"
  by (induction es) (auto simp: flushEntry_def split: prod.splits if_splits)

lemma flushEntries_zero:
  "list_all (\<lambda>(k, e). pendingSendBytes e = 0 \<and> pendingRecvBytes e = 0) es \<Longrightarrow>
   (flushEntries es :: (string \<times> peerPendingMetricsCacheEntry) list \<times> ('m, 'r) effect list)
     = (es, [])"
  by (induction es) (auto simp: flushEntry_def split: prod.splits)

lemma flushed_all_zero:
  "list_all (\<lambda>(k, e). pendingSendBytes e = 0 \<and> pendingRecvBytes e = 0)
     (map (\<lambda>(k, e). (k, e\<lparr>pendingSendBytes := 0, pendingRecvBytes := 0\<rparr>)) es)"
  by (induction es) auto


lemma flushEntries_member_send:
  "(k, e) \<in> set es \<Longrightarrow> 0 < pendingSendBytes e \<Longrightarrow>
   CounterAdd ''MessageSendBytesTotal'' ''message_type'' (label e)
       (float64_of_int (pendingSendBytes e))
     \<in> set (snd (flushEntries es :: (string \<times> peerPendingMetricsCacheEntry) list \<times> ('m, 'r) effect list))"
  by (induction es) (auto simp: flushEntry_def split: prod.splits)

lemma flushEntries_member_recv:
  "(k, e) \<in> set es \<Longrightarrow> 0 < pendingRecvBytes e \<Longrightarrow>
   CounterAdd ''MessageReceiveBytesTotal'' ''message_type'' (label e)
       (float64_of_int (pendingRecvBytes e))
     \<in> set (snd (flushEntries es :: (string \<times> peerPendingMetricsCacheEntry) list \<times> ('m, 'r) effect list))"
  by (induction es) (auto simp: flushEntry_def split: prod.splits)

lemma metricsReporter_tick_unfold:
  "(metricsReporter_tick status p :: peer \<times> ('m, 'r) effect list) =
     (p\<lparr>pendingMetrics := (pendingMetrics p)
          \<lparr>perMessageCache := fst (flushEntries (perMessageCache (pendingMetrics p))
              :: (string \<times> peerPendingMetricsCacheEntry) list \<times> ('m, 'r) effect list)\<rparr>\<rparr>,
      [ConnStatus,
       CounterAdd ''RecvRateLimiterDelay'' ''peer_id'' (peer_ID p)
         (Seconds (SleepTime (RecvMonitor status))),
       CounterAdd ''SendRateLimiterDelay'' ''peer_id'' (peer_ID p)
         (Seconds (SleepTime (SendMonitor status))),
       GaugeSet ''PeerPendingSendBytes'' ''peer_id'' (peer_ID p)
         (float64_of_int (sum_list (map SendQueueSize (ConnectionStatus.Channels status))))]
      @ MtxLock # snd (flushEntries (perMessageCache (pendingMetrics p))) @ [MtxUnlock])"
  by (simp add: metricsReporter_tick_def flushPending_def Let_def split: prod.splits)

text \<open>
  C3. On a tick of the metrics reporter, with a cache whose counts are not negative:
  the calls are some calls that touch neither the mutex nor the two byte counters, then
  one \<^verbatim>\<open>Lock\<close>, the counter additions, and one \<^verbatim>\<open>Unlock\<close>. Every entry with a nonzero
  pendingSendBytes (pendingRecvBytes) has that amount added to MessageSendBytesTotal
  (MessageReceiveBytesTotal) under its label, and for every label the total added is the
  total pending under that label. Afterwards every entry is zero, and a second tick adds
  nothing to either counter and leaves the peer as it is.
\<close>

theorem metricsReporter_tick_drains:
  assumes nn: "nonneg_entries (perMessageCache (pendingMetrics p))"
  shows
  "(case (metricsReporter_tick status p :: peer \<times> ('m, 'r) effect list) of
      (p', effs) \<Rightarrow>
        (\<exists>pre adds. effs = pre @ MtxLock # adds @ [MtxUnlock]
            \<and> MtxLock \<notin> set pre \<and> MtxUnlock \<notin> set pre
            \<and> MtxLock \<notin> set adds \<and> MtxUnlock \<notin> set adds
            \<and> (\<forall>l. counterAdded ''MessageSendBytesTotal'' l pre = 0
                   \<and> counterAdded ''MessageReceiveBytesTotal'' l pre = 0)
            \<and> (\<forall>k e. (k, e) \<in> set (perMessageCache (pendingMetrics p))
                   \<and> pendingSendBytes e \<noteq> 0 \<longrightarrow>
                   CounterAdd ''MessageSendBytesTotal'' ''message_type'' (label e)
                     (float64_of_int (pendingSendBytes e)) \<in> set adds)
            \<and> (\<forall>k e. (k, e) \<in> set (perMessageCache (pendingMetrics p))
                   \<and> pendingRecvBytes e \<noteq> 0 \<longrightarrow>
                   CounterAdd ''MessageReceiveBytesTotal'' ''message_type'' (label e)
                     (float64_of_int (pendingRecvBytes e)) \<in> set adds))
        \<and> (\<forall>l. counterAdded ''MessageSendBytesTotal'' l effs
                 = pendingSendOf l (perMessageCache (pendingMetrics p)))
        \<and> (\<forall>l. counterAdded ''MessageReceiveBytesTotal'' l effs
                 = pendingRecvOf l (perMessageCache (pendingMetrics p)))
        \<and> p' = p\<lparr>pendingMetrics := (pendingMetrics p)
                   \<lparr>perMessageCache :=
                      map (\<lambda>(k, e). (k, e\<lparr>pendingSendBytes := 0, pendingRecvBytes := 0\<rparr>))
                        (perMessageCache (pendingMetrics p))\<rparr>\<rparr>
        \<and> (case (metricsReporter_tick status' p' :: peer \<times> ('m, 'r) effect list) of
              (p'', effs') \<Rightarrow>
                p'' = p'
                \<and> (\<exists>pre'. effs' = pre' @ [MtxLock, MtxUnlock]
                       \<and> MtxLock \<notin> set pre' \<and> MtxUnlock \<notin> set pre')
                \<and> (\<forall>l. counterAdded ''MessageSendBytesTotal'' l effs' = 0
                       \<and> counterAdded ''MessageReceiveBytesTotal'' l effs' = 0)))"
proof -
  let ?es = "perMessageCache (pendingMetrics p)"
  let ?fl = "flushEntries ?es :: (string \<times> peerPendingMetricsCacheEntry) list \<times> ('m, 'r) effect list"
  let ?zs = "map (\<lambda>(k, e). (k, e\<lparr>pendingSendBytes := 0, pendingRecvBytes := 0\<rparr>)) ?es"
  let ?pre = "\<lambda>st q. [ConnStatus,
       CounterAdd ''RecvRateLimiterDelay'' ''peer_id'' (peer_ID q)
         (Seconds (SleepTime (RecvMonitor st))),
       CounterAdd ''SendRateLimiterDelay'' ''peer_id'' (peer_ID q)
         (Seconds (SleepTime (SendMonitor st))),
       GaugeSet ''PeerPendingSendBytes'' ''peer_id'' (peer_ID q)
         (float64_of_int (sum_list (map SendQueueSize (ConnectionStatus.Channels st))))]
       :: ('m, 'r) effect list"
  let ?p' = "p\<lparr>pendingMetrics := (pendingMetrics p)\<lparr>perMessageCache := ?zs\<rparr>\<rparr>"
  have fst_fl: "fst ?fl = ?zs"
    using flushEntries_fst [OF nn] .
  have tick1: "(metricsReporter_tick status p :: peer \<times> ('m, 'r) effect list)
      = (?p', ?pre status p @ MtxLock # snd ?fl @ [MtxUnlock])"
    by (simp only: metricsReporter_tick_unfold fst_fl)
  have zero: "(flushEntries ?zs :: (string \<times> peerPendingMetricsCacheEntry) list \<times> ('m, 'r) effect list)
      = (?zs, [])"
    by (rule flushEntries_zero [OF flushed_all_zero])
  have tick2: "(metricsReporter_tick status' ?p' :: peer \<times> ('m, 'r) effect list)
      = (?p', ?pre status' ?p' @ [MtxLock, MtxUnlock])"
    by (simp add: metricsReporter_tick_unfold zero)
  have pre0: "counterAdded ''MessageSendBytesTotal'' l (?pre st q) = 0"
    "counterAdded ''MessageReceiveBytesTotal'' l (?pre st q) = 0"
    "MtxLock \<notin> set (?pre st q)" "MtxUnlock \<notin> set (?pre st q)" for l st q
    by simp_all
  have mem_s: "CounterAdd ''MessageSendBytesTotal'' ''message_type'' (label e)
      (float64_of_int (pendingSendBytes e)) \<in> set (snd ?fl)"
    if "(k, e) \<in> set ?es" "pendingSendBytes e \<noteq> 0" for k e
  proof -
    from nn that(1) have "0 \<le> pendingSendBytes e"
      by (auto simp: nonneg_entries_def list_all_iff)
    with that show ?thesis
      by (intro flushEntries_member_send) auto
  qed
  have mem_r: "CounterAdd ''MessageReceiveBytesTotal'' ''message_type'' (label e)
      (float64_of_int (pendingRecvBytes e)) \<in> set (snd ?fl)"
    if "(k, e) \<in> set ?es" "pendingRecvBytes e \<noteq> 0" for k e
  proof -
    from nn that(1) have "0 \<le> pendingRecvBytes e"
      by (auto simp: nonneg_entries_def list_all_iff)
    with that show ?thesis
      by (intro flushEntries_member_recv) auto
  qed
  have first: "\<exists>pre adds. ?pre status p @ MtxLock # snd ?fl @ [MtxUnlock]
        = pre @ MtxLock # adds @ [MtxUnlock]
      \<and> MtxLock \<notin> set pre \<and> MtxUnlock \<notin> set pre
      \<and> MtxLock \<notin> set adds \<and> MtxUnlock \<notin> set adds
      \<and> (\<forall>l. counterAdded ''MessageSendBytesTotal'' l pre = 0
             \<and> counterAdded ''MessageReceiveBytesTotal'' l pre = 0)
      \<and> (\<forall>k e. (k, e) \<in> set ?es \<and> pendingSendBytes e \<noteq> 0 \<longrightarrow>
             CounterAdd ''MessageSendBytesTotal'' ''message_type'' (label e)
               (float64_of_int (pendingSendBytes e)) \<in> set adds)
      \<and> (\<forall>k e. (k, e) \<in> set ?es \<and> pendingRecvBytes e \<noteq> 0 \<longrightarrow>
             CounterAdd ''MessageReceiveBytesTotal'' ''message_type'' (label e)
               (float64_of_int (pendingRecvBytes e)) \<in> set adds)"
    apply (rule exI [of _ "?pre status p"])
    apply (rule exI [of _ "snd ?fl"])
    using flushEntries_no_mutex [of ?es, where ?'m = 'm and ?'r = 'r] mem_s mem_r
    apply (intro conjI)
            apply (rule refl)
           apply simp
          apply simp
         apply simp
        apply simp
       apply simp
      apply blast
     apply blast
    done
  have tot_s: "counterAdded ''MessageSendBytesTotal'' l
      (?pre status p @ MtxLock # snd ?fl @ [MtxUnlock]) = pendingSendOf l ?es" for l
    using flushEntries_send_total [OF nn, of l, where ?'m = 'm and ?'r = 'r]
    by (simp add: counterAdded_append)
  have tot_r: "counterAdded ''MessageReceiveBytesTotal'' l
      (?pre status p @ MtxLock # snd ?fl @ [MtxUnlock]) = pendingRecvOf l ?es" for l
    using flushEntries_recv_total [OF nn, of l, where ?'m = 'm and ?'r = 'r]
    by (simp add: counterAdded_append)
  have second: "(\<exists>pre'. ?pre status' ?p' @ [MtxLock, MtxUnlock] = pre' @ [MtxLock, MtxUnlock]
        \<and> MtxLock \<notin> set pre' \<and> MtxUnlock \<notin> set pre')
      \<and> (\<forall>l. counterAdded ''MessageSendBytesTotal'' l (?pre status' ?p' @ [MtxLock, MtxUnlock]) = 0
            \<and> counterAdded ''MessageReceiveBytesTotal'' l (?pre status' ?p' @ [MtxLock, MtxUnlock]) = 0)"
    by simp
  show ?thesis
    unfolding tick1 tick2 prod.case
    using first tot_s tot_r second by blast
qed


lemma nonneg_entries_new: "nonneg_entries (perMessageCache newPeerPendingMetricsCache)"
  by (simp add: nonneg_entries_def newPeerPendingMetricsCache_def)

lemma nonneg_entries_upsert:
  assumes es: "nonneg_entries es"
    and new: "0 \<le> pendingSendBytes (f new) \<and> 0 \<le> pendingRecvBytes (f new)"
    and step: "\<forall>e. 0 \<le> pendingSendBytes e \<and> 0 \<le> pendingRecvBytes e
            \<longrightarrow> 0 \<le> pendingSendBytes (f e) \<and> 0 \<le> pendingRecvBytes (f e)"
  shows "nonneg_entries (upsert k new f es)"
  using es
proof (induction es)
  case Nil
  then show ?case
    using new by (simp add: nonneg_entries_def)
next
  case (Cons x es)
  obtain k' e where x: "x = (k', e)"
    by (cases x)
  from Cons.prems have e: "0 \<le> pendingSendBytes e \<and> 0 \<le> pendingRecvBytes e"
    and rest: "nonneg_entries es"
    by (simp_all add: x nonneg_entries_def)
  from step e have fe: "0 \<le> pendingSendBytes (f e) \<and> 0 \<le> pendingRecvBytes (f e)"
    by blast
  show ?case
  proof (cases "k' = k")
    case True
    then show ?thesis
      using fe rest by (simp add: x nonneg_entries_def)
  next
    case False
    then show ?thesis
      using e Cons.IH [OF rest] by (simp add: x nonneg_entries_def)
  qed
qed

lemma nonneg_entries_AddPendingSendBytes:
  "nonneg_entries (perMessageCache c) \<Longrightarrow> 0 \<le> n
    \<Longrightarrow> nonneg_entries (perMessageCache (AddPendingSendBytes c msgType n))"
  by (simp add: AddPendingSendBytes_def nonneg_entries_upsert)

lemma nonneg_entries_AddPendingRecvBytes:
  "nonneg_entries (perMessageCache c) \<Longrightarrow> 0 \<le> n
    \<Longrightarrow> nonneg_entries (perMessageCache (AddPendingRecvBytes c msgType n))"
  by (simp add: AddPendingRecvBytes_def nonneg_entries_upsert)

lemma newPeer_nonneg:
  "newPeer pc ni rs mts opts = Inr (p, effs)
    \<Longrightarrow> perMessageCache (pendingMetrics p) = []"
proof (cases ni)
  case (Default d)
  have "pendingMetrics (foldl applyOption q opts) = pendingMetrics q" for q
  proof (induction opts arbitrary: q)
    case Nil
    show ?case by simp
  next
    case (Cons opt opts)
    show ?case by (cases opt) (simp add: Cons.IH)
  qed
  then show "newPeer pc ni rs mts opts = Inr (p, effs)
      \<Longrightarrow> perMessageCache (pendingMetrics p) = []"
    using Default by (auto simp: newPeer_def Let_def newPeerPendingMetricsCache_def)
next
  case (OtherNodeInfo i)
  then show "newPeer pc ni rs mts opts = Inr (p, effs)
      \<Longrightarrow> perMessageCache (pendingMetrics p) = []"
    by (simp add: newPeer_def)
qed

lemma send_keeps_nonneg:
  assumes "send px p streamID msg sendFunc = (ok, p', effs)"
    and "nonneg_entries (perMessageCache (pendingMetrics p))"
  shows "nonneg_entries (perMessageCache (pendingMetrics p'))"
proof (cases ok)
  case True
  then obtain bs :: "byte list" where "p' = p\<lparr>pendingMetrics :=
      AddPendingSendBytes (pendingMetrics p) (getMsgType px msg) (int (length bs))\<rparr>"
    using send_contract(4) [OF assms(1)] by blast
  then show ?thesis
    using assms(2) by (simp add: nonneg_entries_AddPendingSendBytes)
next
  case False
  then show ?thesis
    using send_contract(2) [OF assms(1)] assms(2) by simp
qed

lemma readLoop_body_keeps_nonneg:
  assumes "readLoop_body px self mts p streamID reactor rd = (oc, p', effs)"
    and "nonneg_entries (perMessageCache (pendingMetrics p))"
  shows "nonneg_entries (perMessageCache (pendingMetrics p'))"
  using assms
  by (auto simp: readLoop_body_def Let_def Stop_def nonneg_entries_AddPendingRecvBytes
      split: prod.splits if_splits option.splits sum.splits)

theorem metricsReporter_tick_drains_witness:
  "nonneg_entries (perMessageCache demo_cache)
   \<and> (metricsReporter_tick demo_status (demo_peer Running\<lparr>pendingMetrics := demo_cache\<rparr>)
        :: peer \<times> (demo_msg, string) effect list)
      = (demo_peer Running
           \<lparr>pendingMetrics :=
              \<lparr>perMessageCache =
                 [(''Txs'', \<lparr>label = ''Txs'', pendingSendBytes = 0, pendingRecvBytes = 0\<rparr>),
                  (''Raw'', \<lparr>label = ''Raw'', pendingSendBytes = 0, pendingRecvBytes = 0\<rparr>)]\<rparr>\<rparr>,
         [ConnStatus,
          CounterAdd ''RecvRateLimiterDelay'' ''peer_id'' ''peer1'' (Seconds 0),
          CounterAdd ''SendRateLimiterDelay'' ''peer_id'' ''peer1'' (Seconds 0),
          GaugeSet ''PeerPendingSendBytes'' ''peer_id'' ''peer1'' (float64_of_int 8),
          MtxLock,
          CounterAdd ''MessageSendBytesTotal'' ''message_type'' ''Txs'' (float64_of_int 4),
          CounterAdd ''MessageSendBytesTotal'' ''message_type'' ''Raw'' (float64_of_int 2),
          CounterAdd ''MessageReceiveBytesTotal'' ''message_type'' ''Raw'' (float64_of_int 7),
          MtxUnlock])
   \<and> counterAdded ''MessageSendBytesTotal'' ''Txs''
        (snd (metricsReporter_tick demo_status (demo_peer Running\<lparr>pendingMetrics := demo_cache\<rparr>))
          :: (demo_msg, string) effect list) = 4
   \<and> counterAdded ''MessageReceiveBytesTotal'' ''Raw''
        (snd (metricsReporter_tick demo_status (demo_peer Running\<lparr>pendingMetrics := demo_cache\<rparr>))
          :: (demo_msg, string) effect list) = 7"
proof -
  let ?p = "demo_peer Running\<lparr>pendingMetrics := demo_cache\<rparr>"
  let ?t = "metricsReporter_tick demo_status ?p :: peer \<times> (demo_msg, string) effect list"
  have c: "perMessageCache (pendingMetrics ?p) = perMessageCache demo_cache"
    by simp
  have nn: "nonneg_entries (perMessageCache (pendingMetrics ?p))"
    by (simp add: nonneg_entries_def demo_cache_def)
  have ev: "?t = (demo_peer Running
           \<lparr>pendingMetrics :=
              \<lparr>perMessageCache =
                 [(''Txs'', \<lparr>label = ''Txs'', pendingSendBytes = 0, pendingRecvBytes = 0\<rparr>),
                  (''Raw'', \<lparr>label = ''Raw'', pendingSendBytes = 0, pendingRecvBytes = 0\<rparr>)]\<rparr>\<rparr>,
         [ConnStatus,
          CounterAdd ''RecvRateLimiterDelay'' ''peer_id'' ''peer1'' (Seconds 0),
          CounterAdd ''SendRateLimiterDelay'' ''peer_id'' ''peer1'' (Seconds 0),
          GaugeSet ''PeerPendingSendBytes'' ''peer_id'' ''peer1'' (float64_of_int 8),
          MtxLock,
          CounterAdd ''MessageSendBytesTotal'' ''message_type'' ''Txs'' (float64_of_int 4),
          CounterAdd ''MessageSendBytesTotal'' ''message_type'' ''Raw'' (float64_of_int 2),
          CounterAdd ''MessageReceiveBytesTotal'' ''message_type'' ''Raw'' (float64_of_int 7),
          MtxUnlock])"
    by (simp add: demo_defs metricsReporter_tick_def flushPending_def flushEntry_def
        peer_ID_def newPeerPendingMetricsCache_def)
  have tot: "(\<forall>l. counterAdded ''MessageSendBytesTotal'' l (snd ?t)
                 = pendingSendOf l (perMessageCache demo_cache))
           \<and> (\<forall>l. counterAdded ''MessageReceiveBytesTotal'' l (snd ?t)
                 = pendingRecvOf l (perMessageCache demo_cache))"
    using metricsReporter_tick_drains [OF nn, where status = demo_status
        and status' = demo_status and ?'m = demo_msg and ?'r = string]
    unfolding c by (cases ?t) (simp only: prod.case snd_conv, blast)
  have s: "pendingSendOf ''Txs'' (perMessageCache demo_cache) = 4"
    and r: "pendingRecvOf ''Raw'' (perMessageCache demo_cache) = 7"
    by (simp_all add: pendingSendOf_def pendingRecvOf_def demo_cache_def)
  from tot s r have "counterAdded ''MessageSendBytesTotal'' ''Txs'' (snd ?t) = 4"
    and "counterAdded ''MessageReceiveBytesTotal'' ''Raw'' (snd ?t) = 7"
    by simp_all
  then show ?thesis
    using nn ev unfolding c by (simp only: simp_thms)
qed


subsection \<open>The read loop\<close>



lemma take_readInto:
  "length data \<le> length buf \<Longrightarrow> take (length data) (readInto buf data) = data"
  by (simp add: readInto_def)

lemma length_readInto: "length (readInto buf data) = length buf"
  by (simp add: readInto_def)


text \<open>
  C6. When a read returns \<open>n > 0\<close> bytes and no error on a stream with a registered
  prototype, and unmarshalling the bytes fails, or the unmarshalled message is an
  unwrapper whose \<^verbatim>\<open>Unwrap\<close> fails, the read loop panics: the peer is left as it was (it
  is not stopped), and no reactor is called.
\<close>

theorem readLoop_decode_failure_panics:
  fixes px :: "'m Proto" and rest :: "(byte \<times> 'r) list"
  assumes n: "0 < n"
    and mt: "mts streamID = Some mt"
    and fail: "(\<exists>uerr. Unmarshal px (take (nat n) (readInto (replicate 1024 0) data)) mt = Inl uerr)
      \<or> (\<exists>msg werr. Unmarshal px (take (nat n) (readInto (replicate 1024 0) data)) mt = Inr msg
            \<and> Unwrap px msg = Some (Inl werr))"
    and rd: "connRead c streamID 1024 = (c', data, n, None)"
    and nq: "\<not> Quit p"
  shows
  "\<exists>pm. readLoop_body px self mts p streamID reactor (data, n, None) = (Panic pm, p, [])
     \<and> readLoop_range px connRead self mts ((streamID, reactor) # rest) c p
         = (Panic pm, c', p, [ConnRead streamID 1024])
     \<and> readLoop (Suc fuel) px connRead self ((streamID, reactor) # rest) mts c p
         = Some (Panic pm, c', p, [ConnRead streamID 1024])"
proof -
  have "\<exists>pm. readLoop_body px self mts p streamID reactor (data, n, None) = (Panic pm, p, [])"
    using n mt fail by (auto simp: readLoop_body_def Let_def)
  then obtain pm where
    b: "readLoop_body px self mts p streamID reactor (data, n, None) = (Panic pm, p, [])"
    by blast
  have r: "readLoop_range px connRead self mts ((streamID, reactor) # rest) c p
         = (Panic pm, c', p, [ConnRead streamID 1024])"
    using rd b by simp
  have "readLoop (Suc fuel) px connRead self ((streamID, reactor) # rest) mts c p
         = Some (Panic pm, c', p, [ConnRead streamID 1024])"
    using nq r by simp
  with b r show ?thesis
    by blast
qed



theorem readLoop_decode_failure_panics_witness:
  "demo_msgTypes 48 = Some (WireMessage None)
   \<and> Unmarshal demo_proto [11, 1] (WireMessage None) = Inl ''proto: illegal tag''
   \<and> (\<exists>pm. readLoop (Suc 0) demo_proto script_read 1 [(48, ''mempool'')] demo_msgTypes
               [([11, 1], 2, None)] (demo_peer Running)
             = Some (Panic pm, [], demo_peer Running, [ConnRead 48 1024]))
   \<and> Unmarshal demo_proto [18, 0] (WireMessage None) = Inr (WireMessage None)
   \<and> Unwrap demo_proto (WireMessage None) = Some (Inl ''unknown message type'')
   \<and> (\<exists>pm. readLoop (Suc 0) demo_proto script_read 1 [(48, ''mempool'')] demo_msgTypes
               [([18, 0], 2, None)] (demo_peer Running)
             = Some (Panic pm, [], demo_peer Running, [ConnRead 48 1024]))"
proof -
  have mt: "demo_msgTypes 48 = Some (WireMessage None)"
    by (simp add: demo_msgTypes_def)
  have nq: "\<not> Quit (demo_peer Running)"
    by (simp add: Quit_def demo_peer_def)
  have u1: "Unmarshal demo_proto [11, 1] (WireMessage None) = Inl ''proto: illegal tag''"
    by (simp add: demo_proto_def)
  have u2: "Unmarshal demo_proto [18, 0] (WireMessage None) = Inr (WireMessage None)"
    by (simp add: demo_proto_def)
  have w2: "Unwrap demo_proto (WireMessage None) = Some (Inl ''unknown message type'')"
    by (simp add: demo_proto_def)
  have t1: "take (nat 2) (readInto (replicate 1024 0) [11, 1]) = [11, 1 :: byte]"
    by (simp add: readInto_def)
  have t2: "take (nat 2) (readInto (replicate 1024 0) [18, 0]) = [18, 0 :: byte]"
    by (simp add: readInto_def)
  have f1: "(\<exists>uerr. Unmarshal demo_proto (take (nat 2) (readInto (replicate 1024 0) [11, 1]))
                (WireMessage None) = Inl uerr)
      \<or> (\<exists>msg werr. Unmarshal demo_proto (take (nat 2) (readInto (replicate 1024 0) [11, 1]))
                (WireMessage None) = Inr msg \<and> Unwrap demo_proto msg = Some (Inl werr))"
    unfolding t1 using u1 by blast
  have f2: "(\<exists>uerr. Unmarshal demo_proto (take (nat 2) (readInto (replicate 1024 0) [18, 0]))
                (WireMessage None) = Inl uerr)
      \<or> (\<exists>msg werr. Unmarshal demo_proto (take (nat 2) (readInto (replicate 1024 0) [18, 0]))
                (WireMessage None) = Inr msg \<and> Unwrap demo_proto msg = Some (Inl werr))"
    unfolding t2 using u2 w2 by blast
  have r1: "script_read [([11, 1], 2, None)] 48 1024 = ([], [11, 1], 2, None)"
    by (simp add: script_read_def)
  have r2: "script_read [([18, 0], 2, None)] 48 1024 = ([], [18, 0], 2, None)"
    by (simp add: script_read_def)
  have p1: "\<exists>pm. readLoop (Suc 0) demo_proto script_read 1 [(48, ''mempool'')] demo_msgTypes
               [([11, 1], 2, None)] (demo_peer Running)
             = Some (Panic pm, [], demo_peer Running, [ConnRead 48 1024])"
    using readLoop_decode_failure_panics [where connRead = script_read
        and c = "[([11, 1], 2, None)]" and px = demo_proto and n = 2 and mts = demo_msgTypes
        and streamID = 48, OF _ mt f1 r1 nq,
        where self = 1 and reactor = "''mempool''" and rest = "[]" and fuel = 0]
    by auto
  have p2: "\<exists>pm. readLoop (Suc 0) demo_proto script_read 1 [(48, ''mempool'')] demo_msgTypes
               [([18, 0], 2, None)] (demo_peer Running)
             = Some (Panic pm, [], demo_peer Running, [ConnRead 48 1024])"
    using readLoop_decode_failure_panics [where connRead = script_read
        and c = "[([18, 0], 2, None)]" and px = demo_proto and n = 2 and mts = demo_msgTypes
        and streamID = 48, OF _ mt f2 r2 nq,
        where self = 1 and reactor = "''mempool''" and rest = "[]" and fuel = 0]
    by auto
  show ?thesis
    using mt u1 u2 w2 p1 p2 by (simp only: simp_thms)
qed


text \<open>
  C2, as amended. Let \<^verbatim>\<open>Send\<close> of \<open>m\<close> on stream \<open>S\<close> succeed, and let the encoded bytes
  be not empty and at most 1024 long, unmarshal against the prototype of \<open>S\<close> and unwrap
  to \<open>m\<close>. Then the bytes written are the encoded bytes, and the read-loop step on them
  calls the reactor of \<open>S\<close> exactly once, with an envelope whose channel is \<open>S\<close>, whose
  source is the receiving peer and whose message is \<open>m\<close>.
\<close>

theorem Send_readLoop_roundtrip:
  fixes px :: "'m Proto" and connWrite :: "byte \<Rightarrow> byte list \<Rightarrow> int \<times> error option"
  assumes sent: "(Send px now connWrite sender \<lparr>ChannelID = S, Src = src, Message = m\<rparr>
        :: bool \<times> peer \<times> ('m, 'r) effect list) = (True, sender', effs)"
    and wire: "wireBytes px m = Inr bs"
    and nonempty: "0 < length bs"
    and fits: "length bs \<le> 1024"
    and mt: "mts S = Some mt"
    and decode: "Unmarshal px bs mt = Inr w"
    and unwrap: "(case Unwrap px w of None \<Rightarrow> w = m | Some r \<Rightarrow> r = Inr m)"
    and rd: "connRead c S 1024 = (c', bs, int (length bs), None)"
  shows
  "effs = [SetWriteDeadline (now + 10 * Second), ConnWrite S bs]
   \<and> (readLoop_body px self mts q S reactor (bs, int (length bs), None)
        :: outcome \<times> peer \<times> ('m, 'r) effect list)
      = (Continue,
         q\<lparr>pendingMetrics :=
             AddPendingRecvBytes (pendingMetrics q) (getMsgType px m) (int (length bs))\<rparr>,
         [ReactorReceive reactor \<lparr>ChannelID = S, Src = self, Message = m\<rparr>])
   \<and> (readLoop_range px connRead self mts [(S, reactor)] c q
        :: outcome \<times> 'c \<times> peer \<times> ('m, 'r) effect list)
      = (Continue, c',
         q\<lparr>pendingMetrics :=
             AddPendingRecvBytes (pendingMetrics q) (getMsgType px m) (int (length bs))\<rparr>,
         [ConnRead S 1024, ReactorReceive reactor \<lparr>ChannelID = S, Src = self, Message = m\<rparr>])"
proof -
  have s: "(send px sender S m connWrite :: bool \<times> peer \<times> ('m, 'r) effect list)
      = (True, sender', tl effs)"
    using sent by (auto simp: Send_def split: prod.splits)
  have e: "effs = [SetWriteDeadline (now + 10 * Second), ConnWrite S bs]"
    using sent send_contract(4) [OF s] wire by (auto simp: Send_def split: prod.splits)
  have buf: "take (nat (int (length bs))) (readInto (replicate 1024 0) bs) = bs"
    using fits take_readInto [of bs "replicate 1024 (0 :: byte)"] by simp
  have len: "int (length (readInto (replicate 1024 (0 :: byte)) bs)) = 1024"
    by (simp add: length_readInto)
  have b: "(readLoop_body px self mts q S reactor (bs, int (length bs), None)
        :: outcome \<times> peer \<times> ('m, 'r) effect list)
      = (Continue,
         q\<lparr>pendingMetrics :=
             AddPendingRecvBytes (pendingMetrics q) (getMsgType px m) (int (length bs))\<rparr>,
         [ReactorReceive reactor \<lparr>ChannelID = S, Src = self, Message = m\<rparr>])"
    using nonempty fits mt decode unwrap
    unfolding readLoop_body_def Let_def prod.case len buf
    by (auto split: option.splits)
  have r: "(readLoop_range px connRead self mts [(S, reactor)] c q
        :: outcome \<times> 'c \<times> peer \<times> ('m, 'r) effect list)
      = (Continue, c',
         q\<lparr>pendingMetrics :=
             AddPendingRecvBytes (pendingMetrics q) (getMsgType px m) (int (length bs))\<rparr>,
         [ConnRead S 1024, ReactorReceive reactor \<lparr>ChannelID = S, Src = self, Message = m\<rparr>])"
    using rd b by simp
  show ?thesis
    using e b r by (simp only: simp_thms)
qed

theorem Send_readLoop_roundtrip_witness:
  "(Send demo_proto 0 full_write (demo_peer Running)
       \<lparr>ChannelID = 48, Src = 0, Message = Txs [1, 2, 3]\<rparr>
      :: bool \<times> peer \<times> (demo_msg, string) effect list)
     = (True, demo_peer Running
          \<lparr>pendingMetrics := AddPendingSendBytes newPeerPendingMetricsCache ''Txs'' 4\<rparr>,
        [SetWriteDeadline 10000000000, ConnWrite 48 [10, 1, 2, 3]])
   \<and> wireBytes demo_proto (Txs [1, 2, 3]) = Inr [10, 1, 2, 3]
   \<and> demo_msgTypes 48 = Some (WireMessage None)
   \<and> Unmarshal demo_proto [10, 1, 2, 3] (WireMessage None) = Inr (WireMessage (Some [1, 2, 3]))
   \<and> Unwrap demo_proto (WireMessage (Some [1, 2, 3])) = Some (Inr (Txs [1, 2, 3]))
   \<and> script_read [([10, 1, 2, 3], 4, None)] 48 1024 = ([], [10, 1, 2, 3], 4, None)
   \<and> (readLoop_range demo_proto script_read 7 demo_msgTypes [(48, ''mempool'')]
        [([10, 1, 2, 3], 4, None)] (demo_peer Running)
       :: outcome \<times> (byte list \<times> int \<times> error option) list \<times> peer \<times> (demo_msg, string) effect list)
     = (Continue, [],
        demo_peer Running
          \<lparr>pendingMetrics := AddPendingRecvBytes newPeerPendingMetricsCache ''Txs'' 4\<rparr>,
        [ConnRead 48 1024,
         ReactorReceive ''mempool'' \<lparr>ChannelID = 48, Src = 7, Message = Txs [1, 2, 3]\<rparr>])"
proof -
  have sent: "(Send demo_proto 0 full_write (demo_peer Running)
       \<lparr>ChannelID = 48, Src = 0, Message = Txs [1, 2, 3]\<rparr>
      :: bool \<times> peer \<times> (demo_msg, string) effect list)
     = (True, demo_peer Running
          \<lparr>pendingMetrics := AddPendingSendBytes newPeerPendingMetricsCache ''Txs'' 4\<rparr>,
        [SetWriteDeadline 10000000000, ConnWrite 48 [10, 1, 2, 3]])"
    by (simp add: Send_def send_def demo_peer_def demo_proto_def full_write_def IsRunning_def
        HasChannel_def Let_def Second_def)
  have wire: "wireBytes demo_proto (Txs [1, 2, 3]) = Inr [10, 1, 2, 3]"
    by (simp add: wireBytes_def demo_proto_def)
  have mt: "demo_msgTypes 48 = Some (WireMessage None)"
    by (simp add: demo_msgTypes_def)
  have decode: "Unmarshal demo_proto [10, 1, 2, 3] (WireMessage None)
      = Inr (WireMessage (Some [1, 2, 3]))"
    by (simp add: demo_proto_def)
  have uw: "Unwrap demo_proto (WireMessage (Some [1, 2, 3])) = Some (Inr (Txs [1, 2, 3]))"
    by (simp add: demo_proto_def)
  have unwrap: "(case Unwrap demo_proto (WireMessage (Some [1, 2, 3])) of
      None \<Rightarrow> WireMessage (Some [1, 2, 3]) = Txs [1, 2, 3]
    | Some r \<Rightarrow> r = Inr (Txs [1, 2, 3]))"
    by (simp add: uw)
  have rd: "script_read [([10, 1, 2, 3], 4, None)] 48 1024
      = ([], [10, 1, 2, 3], int (length [10, 1, 2, 3 :: byte]), None)"
    by (simp add: script_read_def)
  have ty: "getMsgType demo_proto (Txs [1, 2, 3]) = ''Txs''"
    by (simp add: demo_proto_def)
  have pm: "pendingMetrics (demo_peer Running) = newPeerPendingMetricsCache"
    by (simp add: demo_peer_def)
  note rt = Send_readLoop_roundtrip [where connRead = script_read and mts = demo_msgTypes
      and S = 48 and c = "[([10, 1, 2, 3], 4, None)]" and px = demo_proto
      and bs = "[10, 1, 2, 3]" and connWrite = full_write,
      OF sent wire _ _ mt decode unwrap rd,
      where self = 7 and q = "demo_peer Running" and reactor = "''mempool''"]
  have "(readLoop_range demo_proto script_read 7 demo_msgTypes [(48, ''mempool'')]
        [([10, 1, 2, 3], 4, None)] (demo_peer Running)
       :: outcome \<times> (byte list \<times> int \<times> error option) list \<times> peer \<times> (demo_msg, string) effect list)
     = (Continue, [],
        demo_peer Running
          \<lparr>pendingMetrics := AddPendingRecvBytes newPeerPendingMetricsCache ''Txs'' 4\<rparr>,
        [ConnRead 48 1024,
         ReactorReceive ''mempool'' \<lparr>ChannelID = 48, Src = 7, Message = Txs [1, 2, 3]\<rparr>])"
    using rt by (simp add: ty pm)
  then show ?thesis
    using sent wire mt decode uw rd by simp
qed

text \<open>
  C2 as stated fails for a message that marshals to no bytes: the send succeeds, the
  bytes decode to the message, and the read-loop step on them calls no reactor.
\<close>

theorem Send_readLoop_empty_counterexample:
  "(Send demo_proto 0 full_write (demo_peer Running)
       \<lparr>ChannelID = 32, Src = 0, Message = Raw []\<rparr>
      :: bool \<times> peer \<times> (demo_msg, string) effect list)
     = (True, demo_peer Running
          \<lparr>pendingMetrics := AddPendingSendBytes newPeerPendingMetricsCache ''Raw'' 0\<rparr>,
        [SetWriteDeadline 10000000000, ConnWrite 32 []])
   \<and> demo_msgTypes 32 = Some (Raw [])
   \<and> Unmarshal demo_proto [] (Raw []) = Inr (Raw [])
   \<and> Unwrap demo_proto (Raw []) = None
   \<and> (readLoop_body demo_proto 7 demo_msgTypes (demo_peer Running) 32 ''consensus''
        ([], int (length ([] :: byte list)), None)
       :: outcome \<times> peer \<times> (demo_msg, string) effect list)
     = (Continue, demo_peer Running, [])"
  by (simp add: Send_def send_def demo_peer_def demo_proto_def full_write_def IsRunning_def
      HasChannel_def Let_def Second_def demo_msgTypes_def readLoop_body_def)

end
